theory Spec2Isabelle
  imports Main "HOL-Library.AList" "HOL-Library.Char_ord" "HOL-Library.List_Lexorder"
begin

section \<open>Values: JSON documents, Python dictionaries, exceptions\<close>

text \<open>
  The evaluation suite of \<^verbatim>\<open>portfolio_evaluator.py\<close> moves JSON documents between
  files and an HTTP service. A JSON value is what \<^verbatim>\<open>json.loads\<close> yields in Python;
  a number that is not an integer is kept as its literal text. An object is a Python
  \<^verbatim>\<open>dict\<close>, which keeps the order in which its keys were inserted: an association list.
\<close>

datatype json =
    JNull
  | JBool bool
  | JInt int
  | JFloat string
  | JStr string
  | JList "json list"
  | JObj "(string \<times> json) list"

type_synonym dict = "(string \<times> json) list"

text \<open>
  A raised exception: its class name and the text that \<^verbatim>\<open>str(ex)\<close> gives. Only
  subclasses of \<^verbatim>\<open>Exception\<close> are modelled (what \<^verbatim>\<open>except Exception\<close> catches).
\<close>

datatype exn = Exn (exn_class: string) (exn_str: string)

text \<open>\<^verbatim>\<open>d[k] = v\<close>: an existing key keeps its place, a new key goes to the end.\<close>

definition dict_set :: "dict \<Rightarrow> string \<Rightarrow> json \<Rightarrow> dict" where
  "dict_set d k v = AList.update k v d"

definition dict_keys :: "dict \<Rightarrow> string list" where
  "dict_keys d = map fst d"

definition quoted :: "string \<Rightarrow> string" where
  "quoted s = [CHR 0x27] @ s @ [CHR 0x27]"

definition py_type_name :: "json \<Rightarrow> string" where
  "py_type_name j =
     (case j of JNull \<Rightarrow> ''NoneType'' | JBool _ \<Rightarrow> ''bool'' | JInt _ \<Rightarrow> ''int''
      | JFloat _ \<Rightarrow> ''float'' | JStr _ \<Rightarrow> ''str'' | JList _ \<Rightarrow> ''list''
      | JObj _ \<Rightarrow> ''dict'')"

text \<open>
  \<^verbatim>\<open>obj[key]\<close> with a string key: a dict looks the key up and raises KeyError when it
  is absent; every other JSON value raises TypeError.
\<close>

definition subscript_error :: "json \<Rightarrow> string \<Rightarrow> exn" where
  "subscript_error obj key =
     (case obj of
        JObj _ \<Rightarrow> Exn ''KeyError'' (quoted key)
      | JList _ \<Rightarrow> Exn ''TypeError'' ''list indices must be integers or slices, not str''
      | JStr _ \<Rightarrow> Exn ''TypeError'' (''string indices must be integers, not '' @ quoted ''str'')
      | _ \<Rightarrow> Exn ''TypeError'' (quoted (py_type_name obj) @ '' object is not subscriptable''))"

definition subscript :: "json \<Rightarrow> string \<Rightarrow> exn + json" where
  "subscript obj key =
     (case obj of
        JObj d \<Rightarrow>
          (case map_of d key of
             None \<Rightarrow> Inl (subscript_error obj key)
           | Some v \<Rightarrow> Inr v)
      | _ \<Rightarrow> Inl (subscript_error obj key))"

text \<open>\<^verbatim>\<open>obj.get(key, default)\<close>: only a dict has the method.\<close>

definition py_get :: "json \<Rightarrow> string \<Rightarrow> json \<Rightarrow> exn + json" where
  "py_get obj key dflt =
     (case obj of
        JObj d \<Rightarrow> Inr (case map_of d key of None \<Rightarrow> dflt | Some v \<Rightarrow> v)
      | _ \<Rightarrow> Inl (Exn ''AttributeError''
                 (quoted (py_type_name obj) @ '' object has no attribute '' @ quoted ''get'')))"

subsection \<open>Strings\<close>

text \<open>Decimal text of an integer, as \<^verbatim>\<open>str(n)\<close> and an f-string print it.\<close>

fun str_nat :: "nat \<Rightarrow> string" where
  "str_nat n =
     (if n < 10 then [''0123456789'' ! n]
      else str_nat (n div 10) @ [''0123456789'' ! (n mod 10)])"

definition str_int :: "int \<Rightarrow> string" where
  "str_int i = (if i < 0 then CHR ''-'' # str_nat (nat (- i)) else str_nat (nat i))"

text \<open>The format \<^verbatim>\<open>{n:02d}\<close> for a non-negative \<^verbatim>\<open>n\<close>: zero-padded to width two.\<close>

definition fmt_02d :: "nat \<Rightarrow> string" where
  "fmt_02d n = (let s = str_nat n in replicate (2 - length s) CHR ''0'' @ s)"

text \<open>\<^verbatim>\<open>s.rstrip('/')\<close>\<close>

definition rstrip_slash :: "string \<Rightarrow> string" where
  "rstrip_slash s = rev (dropWhile (\<lambda>c. c = CHR ''/'') (rev s))"

text \<open>
  \<^verbatim>\<open>s.replace(old, new)\<close>: every occurrence of \<^verbatim>\<open>old\<close>, found left to right
  without overlap. The counter is the number of characters of a matched occurrence still
  to be skipped.
\<close>

fun replace_from :: "string \<Rightarrow> string \<Rightarrow> nat \<Rightarrow> string \<Rightarrow> string" where
  "replace_from old new skip [] = []"
| "replace_from old new (Suc skip) (c # cs) = replace_from old new skip cs"
| "replace_from old new 0 (c # cs) =
     (if take (length old) (c # cs) = old
      then new @ replace_from old new (length old - 1) cs
      else c # replace_from old new 0 cs)"

definition str_replace :: "string \<Rightarrow> string \<Rightarrow> string \<Rightarrow> string" where
  "str_replace s old new =
     (if old = [] then new @ concat (map (\<lambda>c. c # new) s)
      else replace_from old new 0 s)"

section \<open>The outside world\<close>

text \<open>
  What the program touches and does not own: the HTTP service, the clock and the files.
  A response of the service has a status; reading its body as text or as JSON can itself
  raise. The network decides the outcome of the n-th request of a run (so that one query
  may fail and the next succeed); the clock gives the text of
  \<^verbatim>\<open>datetime.utcnow().isoformat()\<close> at its n-th reading. A JSON Lines file is the
  list of its lines, each a JSON value. Printing to the console is left out, and so is
  the half-second pause after a collected response, which changes no value.
\<close>

record http_response =
  status :: int
  text_result :: "exn + string"
  json_result :: "exn + json"

datatype request =
    GET string
  | POST string json "(string \<times> string) list"

record world =
  network :: "nat \<Rightarrow> request \<Rightarrow> exn + http_response"
  utcnow :: "nat \<Rightarrow> string"
  requests :: "request list"
  clock_reads :: nat
  files :: "string \<Rightarrow> json list option"

definition session_request :: "request \<Rightarrow> world \<Rightarrow> (exn + http_response) \<times> world" where
  "session_request r w =
     (network w (length (requests w)) r, w\<lparr>requests := requests w @ [r]\<rparr>)"

definition utcnow_isoformat :: "world \<Rightarrow> string \<times> world" where
  "utcnow_isoformat w = (utcnow w (clock_reads w), w\<lparr>clock_reads := Suc (clock_reads w)\<rparr>)"

section \<open>PortfolioManagerApiClient\<close>

text \<open>
  The client holds the base address, stripped of trailing slashes, and a session that
  is \<^verbatim>\<open>None\<close> until the client is entered as a context manager.
\<close>

record client =
  base_url :: string
  session :: bool

definition PortfolioManagerApiClient :: "string \<Rightarrow> client" where
  "PortfolioManagerApiClient url = \<lparr>base_url = rstrip_slash url, session = False\<rparr>"

definition aenter :: "client \<Rightarrow> client" where
  "aenter c = c\<lparr>session := True\<rparr>"

definition query_url :: "client \<Rightarrow> string" where
  "query_url c = base_url c @ ''/api/ai/chat/query''"

definition health_url :: "client \<Rightarrow> string" where
  "health_url c = base_url c @ ''/api/ai/chat/health''"

definition query_payload :: "json \<Rightarrow> int \<Rightarrow> int option \<Rightarrow> json" where
  "query_payload query account_id thread_id =
     JObj [(''query'', query), (''accountId'', JInt account_id),
           (''threadId'', (case thread_id of None \<Rightarrow> JNull | Some t \<Rightarrow> JInt t))]"

definition query_headers :: "(string \<times> string) list" where
  "query_headers = [(''Content-Type'', ''application/json''), (''Accept'', ''application/json'')]"

text \<open>
  \<^verbatim>\<open>send_chat_query\<close>: one POST. What the \<^verbatim>\<open>try\<close> block makes of the
  outcome of the request: a status other than 200 reads the body text and raises a plain
  \<^verbatim>\<open>Exception\<close> with the status and the text in its message; status 200 gives
  \<^verbatim>\<open>response.json()\<close>. The handler prints and re-raises whatever was raised,
  unchanged.
\<close>

definition chat_query_result :: "exn + http_response \<Rightarrow> exn + json" where
  "chat_query_result outcome =
     (case outcome of
        Inl ex \<Rightarrow> Inl ex
      | Inr response \<Rightarrow>
          (if status response \<noteq> 200
           then (case text_result response of
                   Inl ex \<Rightarrow> Inl ex
                 | Inr error_text \<Rightarrow>
                     Inl (Exn ''Exception''
                            (''API Error '' @ str_int (status response) @ '': '' @ error_text)))
           else json_result response))"

definition send_chat_query ::
  "client \<Rightarrow> json \<Rightarrow> int \<Rightarrow> int option \<Rightarrow> world \<Rightarrow> (exn + json) \<times> world" where
  "send_chat_query c query account_id thread_id w =
     (if \<not> session c
      then (Inl (Exn ''AttributeError''
                 (quoted ''NoneType'' @ '' object has no attribute '' @ quoted ''post'')), w)
      else
        (case session_request
                (POST (query_url c) (query_payload query account_id thread_id) query_headers) w of
           (outcome, w') \<Rightarrow> (chat_query_result outcome, w')))"

text \<open>
  \<^verbatim>\<open>health_check\<close>: the body of the \<^verbatim>\<open>try\<close>, then the bare \<^verbatim>\<open>except\<close> that
  turns anything raised into \<^verbatim>\<open>False\<close>.
\<close>

definition health_check_try :: "client \<Rightarrow> world \<Rightarrow> (exn + bool) \<times> world" where
  "health_check_try c w =
     (if \<not> session c
      then (Inl (Exn ''AttributeError''
                 (quoted ''NoneType'' @ '' object has no attribute '' @ quoted ''get'')), w)
      else
        (case session_request (GET (health_url c)) w of
           (Inl ex, w') \<Rightarrow> (Inl ex, w')
         | (Inr response, w') \<Rightarrow> (Inr (status response = 200), w')))"

definition health_check :: "client \<Rightarrow> world \<Rightarrow> (exn + bool) \<times> world" where
  "health_check c w =
     (case health_check_try c w of
        (Inl ex, w') \<Rightarrow> (Inr False, w')
      | (Inr b, w') \<Rightarrow> (Inr b, w'))"

section \<open>Files of JSON lines\<close>

text \<open>
  \<^verbatim>\<open>jsonlines.open(path, mode='w')\<close> empties the file, each \<^verbatim>\<open>write\<close> adds a
  line; reading a file that does not exist raises. A file holds parsed lines, so a line
  that is not JSON cannot occur here, and every path can be written.
\<close>

definition open_write :: "string \<Rightarrow> world \<Rightarrow> world" where
  "open_write path w = w\<lparr>files := (files w)(path \<mapsto> [])\<rparr>"

definition writer_write :: "string \<Rightarrow> json \<Rightarrow> world \<Rightarrow> world" where
  "writer_write path row w =
     w\<lparr>files := (files w)(path \<mapsto> (case files w path of None \<Rightarrow> [] | Some ls \<Rightarrow> ls) @ [row])\<rparr>"

definition read_all :: "string \<Rightarrow> world \<Rightarrow> exn + json list" where
  "read_all path w =
     (case files w path of
        None \<Rightarrow> Inl (Exn ''FileNotFoundError''
                     (''[Errno 2] No such file or directory: '' @ quoted path))
      | Some ls \<Rightarrow> Inr ls)"

section \<open>The dataset builder: \<^verbatim>\<open>create_test_dataset\<close>\<close>

text \<open>The three tool definitions, as the source writes them.\<close>

definition tool_definitions :: json where
  "tool_definitions = JList [
     JObj [
       (''name'', JStr ''PortfolioAnalysisTool''),
       (''description'', JStr ''Analyzes portfolio holdings for a specific date, calculating total value, asset allocation, and performance metrics''),
       (''parameters'', JObj [
          (''type'', JStr ''object''),
          (''properties'', JObj [
             (''valuationDate'', JObj [
                (''type'', JStr ''string''),
                (''description'', JStr ''Date for analysis (YYYY-MM-DD format or relative terms like 'today', 'yesterday')'')])]),
          (''required'', JList [JStr ''valuationDate''])])],
     JObj [
       (''name'', JStr ''PortfolioComparisonTool''),
       (''description'', JStr ''Compares portfolio performance between two different dates''),
       (''parameters'', JObj [
          (''type'', JStr ''object''),
          (''properties'', JObj [
             (''currentDate'', JObj [
                (''type'', JStr ''string''),
                (''description'', JStr ''Current date for comparison (YYYY-MM-DD or relative terms)'')]),
             (''comparisonDate'', JObj [
                (''type'', JStr ''string''),
                (''description'', JStr ''Historical date to compare against (YYYY-MM-DD or relative terms)'')])]),
          (''required'', JList [JStr ''currentDate'', JStr ''comparisonDate''])])],
     JObj [
       (''name'', JStr ''MarketIntelligenceTool''),
       (''description'', JStr ''Provides market sentiment analysis and intelligence for specific securities''),
       (''parameters'', JObj [
          (''type'', JStr ''object''),
          (''properties'', JObj [
             (''symbol'', JObj [
                (''type'', JStr ''string''),
                (''description'', JStr ''Stock symbol to analyze (e.g., 'AAPL', 'MSFT', 'TSLA.L')'')])]),
          (''required'', JList [JStr ''symbol''])])]]"

text \<open>The eleven scenarios, in the order of the source.\<close>

definition test_scenarios :: "dict list" where
  "test_scenarios = [
     [(''query'', JStr ''How is my portfolio performing today?''),
      (''expected_tool'', JStr ''PortfolioAnalysisTool''),
      (''expected_params'', JObj [(''valuationDate'', JStr ''today'')]),
      (''scenario_type'', JStr ''portfolio_analysis'')],
     [(''query'', JStr ''What was my portfolio value yesterday?''),
      (''expected_tool'', JStr ''PortfolioAnalysisTool''),
      (''expected_params'', JObj [(''valuationDate'', JStr ''yesterday'')]),
      (''scenario_type'', JStr ''portfolio_analysis'')],
     [(''query'', JStr ''Can you analyze my portfolio for November 15, 2025?''),
      (''expected_tool'', JStr ''PortfolioAnalysisTool''),
      (''expected_params'', JObj [(''valuationDate'', JStr ''2025-11-15'')]),
      (''scenario_type'', JStr ''portfolio_analysis'')],
     [(''query'', JStr ''How does my portfolio today compare to last week?''),
      (''expected_tool'', JStr ''PortfolioComparisonTool''),
      (''expected_params'', JObj [(''currentDate'', JStr ''today''), (''comparisonDate'', JStr ''2025-11-11'')]),
      (''scenario_type'', JStr ''portfolio_comparison'')],
     [(''query'', JStr ''Compare my current portfolio performance to last month''),
      (''expected_tool'', JStr ''PortfolioComparisonTool''),
      (''expected_params'', JObj [(''currentDate'', JStr ''today''), (''comparisonDate'', JStr ''2025-10-18'')]),
      (''scenario_type'', JStr ''portfolio_comparison'')],
     [(''query'', JStr ''Show me the difference between my portfolio on Nov 10 vs Nov 17, 2025''),
      (''expected_tool'', JStr ''PortfolioComparisonTool''),
      (''expected_params'', JObj [(''currentDate'', JStr ''2025-11-17''), (''comparisonDate'', JStr ''2025-11-10'')]),
      (''scenario_type'', JStr ''portfolio_comparison'')],
     [(''query'', JStr ''What's the market sentiment for Apple stock?''),
      (''expected_tool'', JStr ''MarketIntelligenceTool''),
      (''expected_params'', JObj [(''symbol'', JStr ''AAPL'')]),
      (''scenario_type'', JStr ''market_intelligence'')],
     [(''query'', JStr ''Can you give me intel on Tesla's market situation?''),
      (''expected_tool'', JStr ''MarketIntelligenceTool''),
      (''expected_params'', JObj [(''symbol'', JStr ''TSLA'')]),
      (''scenario_type'', JStr ''market_intelligence'')],
     [(''query'', JStr ''How does the market feel about GEN.L right now?''),
      (''expected_tool'', JStr ''MarketIntelligenceTool''),
      (''expected_params'', JObj [(''symbol'', JStr ''GEN.L'')]),
      (''scenario_type'', JStr ''market_intelligence'')],
     [(''query'', JStr ''What's my total portfolio value and how is MSFT doing in the market?''),
      (''expected_tool'', JStr ''PortfolioAnalysisTool''),
      (''expected_params'', JObj [(''valuationDate'', JStr ''today'')]),
      (''scenario_type'', JStr ''multi_intent''),
      (''note'', JStr ''Should trigger both PortfolioAnalysisTool and MarketIntelligenceTool'')],
     [(''query'', JStr ''I want to see how my investments have changed and also check sentiment for Amazon''),
      (''expected_tool'', JStr ''PortfolioComparisonTool''),
      (''expected_params'', JObj [(''currentDate'', JStr ''today''), (''comparisonDate'', JStr ''yesterday'')]),
      (''scenario_type'', JStr ''multi_intent''),
      (''note'', JStr ''Should trigger PortfolioComparisonTool and MarketIntelligenceTool'')]]"

text \<open>
  The row written for the scenario at index \<^verbatim>\<open>i\<close>. The dict literal evaluates its
  values in order, so the first missing key raises; \<^verbatim>\<open>note\<close>, when the scenario
  has it, is stored under the key \<^verbatim>\<open>notes\<close>.
\<close>

definition make_row :: "json \<Rightarrow> nat \<Rightarrow> dict \<Rightarrow> exn + dict" where
  "make_row tool_defs i scenario =
     (case subscript (JObj scenario) ''query'' of
        Inl ex \<Rightarrow> Inl ex
      | Inr query \<Rightarrow>
     (case subscript (JObj scenario) ''scenario_type'' of
        Inl ex \<Rightarrow> Inl ex
      | Inr scenario_type \<Rightarrow>
     (case subscript (JObj scenario) ''expected_tool'' of
        Inl ex \<Rightarrow> Inl ex
      | Inr expected_tool \<Rightarrow>
     (case subscript (JObj scenario) ''expected_params'' of
        Inl ex \<Rightarrow> Inl ex
      | Inr expected_params \<Rightarrow>
          (let row = [(''query'', query),
                      (''tool_definitions'', tool_defs),
                      (''scenario_id'', JStr (''test_'' @ fmt_02d (i + 1))),
                      (''scenario_type'', scenario_type),
                      (''expected_tool'', expected_tool),
                      (''expected_params'', expected_params)]
           in (case map_of scenario ''note'' of
                 None \<Rightarrow> Inr row
               | Some note \<Rightarrow> Inr (dict_set row ''notes'' note)))))))"

text \<open>
  The loop over \<^verbatim>\<open>enumerate(test_scenarios)\<close>: rows are written one at a time, so a
  scenario that raises leaves the rows before it in the file.
\<close>

fun write_scenarios ::
  "json \<Rightarrow> string \<Rightarrow> nat \<Rightarrow> dict list \<Rightarrow> world \<Rightarrow> exn option \<times> world" where
  "write_scenarios tool_defs path i [] w = (None, w)"
| "write_scenarios tool_defs path i (scenario # rest) w =
     (case make_row tool_defs i scenario of
        Inl ex \<Rightarrow> (Some ex, w)
      | Inr row \<Rightarrow>
          write_scenarios tool_defs path (i + 1) rest (writer_write path (JObj row) w))"

definition build_dataset ::
  "json \<Rightarrow> dict list \<Rightarrow> string \<Rightarrow> world \<Rightarrow> (exn + string) \<times> world" where
  "build_dataset tool_defs scenarios output_file w =
     (case write_scenarios tool_defs output_file 0 scenarios (open_write output_file w) of
        (Some ex, w') \<Rightarrow> (Inl ex, w')
      | (None, w') \<Rightarrow> (Inr output_file, w'))"

definition create_test_dataset :: "string \<Rightarrow> world \<Rightarrow> (exn + string) \<times> world" where
  "create_test_dataset output_file w =
     build_dataset tool_definitions test_scenarios output_file w"

section \<open>The response collector: \<^verbatim>\<open>collect_ai_responses\<close>\<close>

text \<open>
  The two records the loop can append: the copy of the scenario with the response
  written into it, and the copy with the error written into it. The first has no
  \<^verbatim>\<open>error\<close> key of its own, the second no \<^verbatim>\<open>api_response_full\<close>.
\<close>

definition enriched_scenario :: "dict \<Rightarrow> json \<Rightarrow> json \<Rightarrow> string \<Rightarrow> dict" where
  "enriched_scenario scenario response api_response ts =
     dict_set (dict_set (dict_set (dict_set scenario
       ''response'' response)
       ''tool_calls'' (JList []))
       ''api_response_full'' api_response)
       ''timestamp'' (JStr ts)"

definition error_scenario :: "dict \<Rightarrow> exn \<Rightarrow> string \<Rightarrow> dict" where
  "error_scenario scenario ex ts =
     dict_set (dict_set (dict_set (dict_set scenario
       ''response'' (JStr (''Error: '' @ exn_str ex)))
       ''tool_calls'' (JList []))
       ''error'' (JStr (exn_str ex)))
       ''timestamp'' (JStr ts)"

text \<open>
  The body of the \<^verbatim>\<open>try\<close> for one scenario: look the query up, send it, read the
  response text out of the payload, stamp the copy of the scenario.
\<close>

definition collect_try :: "client \<Rightarrow> int \<Rightarrow> dict \<Rightarrow> world \<Rightarrow> (exn + dict) \<times> world" where
  "collect_try api_client account_id scenario w =
     (case subscript (JObj scenario) ''query'' of
        Inl ex \<Rightarrow> (Inl ex, w)
      | Inr query \<Rightarrow>
          (case send_chat_query api_client query account_id None w of
             (Inl ex, w1) \<Rightarrow> (Inl ex, w1)
           | (Inr api_response, w1) \<Rightarrow>
               (case py_get api_response ''response'' (JStr ''No response'') of
                  Inl ex \<Rightarrow> (Inl ex, w1)
                | Inr response \<Rightarrow>
                    (case utcnow_isoformat w1 of
                       (ts, w2) \<Rightarrow>
                         (Inr (enriched_scenario scenario response api_response ts), w2)))))"

text \<open>The \<^verbatim>\<open>except Exception\<close> handler.\<close>

definition collect_except :: "dict \<Rightarrow> exn \<Rightarrow> world \<Rightarrow> dict \<times> world" where
  "collect_except scenario ex w =
     (case utcnow_isoformat w of
        (ts, w') \<Rightarrow> (error_scenario scenario ex ts, w'))"

definition collect_scenario :: "client \<Rightarrow> int \<Rightarrow> dict \<Rightarrow> world \<Rightarrow> dict \<times> world" where
  "collect_scenario api_client account_id scenario w =
     (case collect_try api_client account_id scenario w of
        (Inr row, w') \<Rightarrow> (row, w')
      | (Inl ex, w') \<Rightarrow> collect_except scenario ex w')"

text \<open>
  The loop over the rows read from the file. The progress line printed before the
  \<^verbatim>\<open>try\<close> reads \<^verbatim>\<open>scenario['scenario_type']\<close>: a row without that key, or a row
  that is no object, raises there and ends the run.
\<close>

fun collect_loop ::
  "client \<Rightarrow> int \<Rightarrow> json list \<Rightarrow> json list \<Rightarrow> world \<Rightarrow> (exn + json list) \<times> world" where
  "collect_loop api_client account_id [] enriched_data w = (Inr enriched_data, w)"
| "collect_loop api_client account_id (scenario # rest) enriched_data w =
     (case scenario of
        JObj d \<Rightarrow>
          (case map_of d ''scenario_type'' of
             None \<Rightarrow> (Inl (subscript_error scenario ''scenario_type''), w)
           | Some _ \<Rightarrow>
               (case collect_scenario api_client account_id d w of
                  (row, w') \<Rightarrow>
                    collect_loop api_client account_id rest (enriched_data @ [JObj row]) w'))
      | _ \<Rightarrow> (Inl (subscript_error scenario ''scenario_type''), w))"

definition write_all :: "string \<Rightarrow> json list \<Rightarrow> world \<Rightarrow> world" where
  "write_all path rows w = fold (writer_write path) rows (open_write path w)"

text \<open>
  The whole run: read the dataset, enter the client, check health, collect, write the
  enriched file beside the dataset. The enriched file is written only after the loop.
\<close>

definition collect_ai_responses ::
  "string \<Rightarrow> string \<Rightarrow> int \<Rightarrow> world \<Rightarrow> (exn + string) \<times> world" where
  "collect_ai_responses test_dataset_file api_base_url account_id w =
     (case read_all test_dataset_file w of
        Inl ex \<Rightarrow> (Inl ex, w)
      | Inr test_data \<Rightarrow>
          (let api_client = aenter (PortfolioManagerApiClient api_base_url) in
           (case health_check api_client w of
              (Inl ex, w1) \<Rightarrow> (Inl ex, w1)
            | (Inr healthy, w1) \<Rightarrow>
                (if \<not> healthy
                 then (Inl (Exn ''Exception''
                              (''Portfolio Manager API at '' @ api_base_url
                               @ '' is not healthy. Please ensure it's running.'')), w1)
                 else
                   (case collect_loop api_client account_id test_data [] w1 of
                      (Inl ex, w2) \<Rightarrow> (Inl ex, w2)
                    | (Inr enriched_data, w2) \<Rightarrow>
                        (let enriched_file =
                               str_replace test_dataset_file ''.jsonl'' ''_with_responses.jsonl''
                         in (Inr enriched_file, write_all enriched_file enriched_data w2)))))))"

section \<open>Notions used to state the properties\<close>

text \<open>A field of a row of a file: the value under a key when the row is an object.\<close>

definition field :: "json \<Rightarrow> string \<Rightarrow> json option" where
  "field row k = (case row of JObj d \<Rightarrow> map_of d k | _ \<Rightarrow> None)"

text \<open>
  The outcome of \<^verbatim>\<open>send_chat_query\<close> for a row when its POST is request number
  \<^verbatim>\<open>k\<close> of the run.
\<close>

definition scenario_call :: "client \<Rightarrow> int \<Rightarrow> world \<Rightarrow> nat \<Rightarrow> json \<Rightarrow> exn + json" where
  "scenario_call c account_id w k row =
     (case subscript row ''query'' of
        Inl ex \<Rightarrow> Inl ex
      | Inr query \<Rightarrow>
          chat_query_result
            (network w k (POST (query_url c) (query_payload query account_id None) query_headers)))"

text \<open>The record that the loop appends for a scenario, given the outcome of its call.\<close>

definition outcome_record :: "dict \<Rightarrow> exn + json \<Rightarrow> string \<Rightarrow> dict" where
  "outcome_record scenario res ts =
     (case res of
        Inl ex \<Rightarrow> error_scenario scenario ex ts
      | Inr api_response \<Rightarrow>
          (case py_get api_response ''response'' (JStr ''No response'') of
             Inl ex \<Rightarrow> error_scenario scenario ex ts
           | Inr response \<Rightarrow> enriched_scenario scenario response api_response ts))"

text \<open>The keys that enrichment writes.\<close>

definition enrichment_keys :: "string list" where
  "enrichment_keys = [''response'', ''tool_calls'', ''api_response_full'', ''error'', ''timestamp'']"

text \<open>
  An enriched row is derived from a dataset row when both are objects and every field
  that enrichment does not write is the same in both.
\<close>

definition derived_from :: "json \<Rightarrow> json \<Rightarrow> bool" where
  "derived_from row out \<longleftrightarrow>
     (\<exists>d d'. row = JObj d \<and> out = JObj d'
        \<and> (\<forall>k. k \<notin> set enrichment_keys \<longrightarrow> map_of d' k = map_of d k))"

text \<open>The health check of a run that starts in this world against this address succeeds.\<close>

definition healthy :: "string \<Rightarrow> world \<Rightarrow> bool" where
  "healthy url w =
     (case network w (length (requests w))
             (GET (health_url (aenter (PortfolioManagerApiClient url)))) of
        Inl _ \<Rightarrow> False
      | Inr r \<Rightarrow> status r = 200)"

text \<open>A JSON value that is an object: what \<^verbatim>\<open>.get\<close> can be called on.\<close>

definition is_object :: "json \<Rightarrow> bool" where
  "is_object j = (case j of JObj _ \<Rightarrow> True | _ \<Rightarrow> False)"

text \<open>
  The POSTs that a run sends for a list of rows: one for each row that has a query, in
  the order of the rows.
\<close>

definition scenario_posts :: "client \<Rightarrow> int \<Rightarrow> json list \<Rightarrow> request list" where
  "scenario_posts c account_id rows =
     concat (map (\<lambda>row. case subscript row ''query'' of
                           Inl ex \<Rightarrow> []
                         | Inr query \<Rightarrow>
                             [POST (query_url c) (query_payload query account_id None)
                                query_headers])
                 rows)"

text \<open>
  The outcome of the call made for the i-th row in a run that starts in this world: the
  health check is the first request of the run, the POST of the i-th row the one after
  the POSTs of the rows before it.
\<close>

definition own_call :: "string \<Rightarrow> int \<Rightarrow> world \<Rightarrow> json list \<Rightarrow> nat \<Rightarrow> exn + json" where
  "own_call url account_id w rows i =
     scenario_call (aenter (PortfolioManagerApiClient url)) account_id w
       (Suc (length (requests w)) + i) (rows ! i)"

text \<open>The records of the enriched file that a run has written (none when it raised).\<close>

definition enriched_rows :: "(exn + string) \<times> world \<Rightarrow> json list" where
  "enriched_rows run =
     (case run of
        (Inl ex, w') \<Rightarrow> []
      | (Inr enriched_file, w') \<Rightarrow>
          (case files w' enriched_file of None \<Rightarrow> [] | Some ls \<Rightarrow> ls))"

text \<open>
  A scenario of the catalogue has the four keys that the dataset builder reads from it.
\<close>

definition is_scenario :: "dict \<Rightarrow> bool" where
  "is_scenario s \<longleftrightarrow>
     map_of s ''query'' \<noteq> None \<and> map_of s ''scenario_type'' \<noteq> None
     \<and> map_of s ''expected_tool'' \<noteq> None \<and> map_of s ''expected_params'' \<noteq> None"

text \<open>The names that a list of tool definitions declares.\<close>

definition tool_names :: "json \<Rightarrow> json list" where
  "tool_names defs =
     (case defs of JList ts \<Rightarrow> List.map_filter (\<lambda>t. field t ''name'') ts | _ \<Rightarrow> [])"

text \<open>Reading a decimal numeral back.\<close>

definition digit_value :: "char \<Rightarrow> nat" where
  "digit_value c = of_char c - 48"

definition parse_nat :: "string \<Rightarrow> nat" where
  "parse_nat s = foldl (\<lambda>a c. 10 * a + digit_value c) 0 s"

section \<open>Example worlds\<close>

text \<open>
  A service that answers every request with 200 and the same payload; one that fails the
  request numbered 2 (the health check is request 0, so this is the second scenario)
  with a 500; one that answers the same request with 200 and the JSON document
  \<^verbatim>\<open>null\<close>; one that answers every request with that 500; one that answers 503 and drops the connection before the body arrives; one
  that refuses every connection. The dataset file holds the first three rows that the
  dataset builder writes.
\<close>

definition mock_response :: http_response where
  \<open>mock_response =
     \<lparr>status = 200,
      text_result = Inr ''{"response": "All good"}'',
      json_result = Inr (JObj [(''response'', JStr ''All good'')])\<rparr>\<close>

definition error_response :: http_response where
  "error_response =
     \<lparr>status = 500,
      text_result = Inr ''Internal Server Error'',
      json_result = Inl (Exn ''ContentTypeError''
                          ''Attempt to decode JSON with unexpected mimetype: text/plain'')\<rparr>"

definition truncated_response :: http_response where
  "truncated_response =
     \<lparr>status = 503,
      text_result = Inl (Exn ''ClientPayloadError'' ''Response payload is not completed''),
      json_result = Inl (Exn ''ClientPayloadError'' ''Response payload is not completed'')\<rparr>"

definition mock_network :: "nat \<Rightarrow> request \<Rightarrow> exn + http_response" where
  "mock_network n r = Inr mock_response"

definition faulty_network :: "nat \<Rightarrow> request \<Rightarrow> exn + http_response" where
  "faulty_network n r = (if n = 2 then Inr error_response else Inr mock_response)"

definition erroring_network :: "nat \<Rightarrow> request \<Rightarrow> exn + http_response" where
  "erroring_network n r = Inr error_response"

definition truncating_network :: "nat \<Rightarrow> request \<Rightarrow> exn + http_response" where
  "truncating_network n r = Inr truncated_response"

definition refusing_network :: "nat \<Rightarrow> request \<Rightarrow> exn + http_response" where
  "refusing_network n r =
     Inl (Exn ''ClientConnectorError'' ''Cannot connect to host localhost:5000'')"

definition null_response :: http_response where
  "null_response =
     \<lparr>status = 200, text_result = Inr ''null'', json_result = Inr JNull\<rparr>"

definition null_network :: "nat \<Rightarrow> request \<Rightarrow> exn + http_response" where
  "null_network n r = (if n = 2 then Inr null_response else Inr mock_response)"

definition demo_clock :: "nat \<Rightarrow> string" where
  "demo_clock n = ''2025-11-18T10:00:00.00000'' @ str_nat n"

definition demo_rows :: "json list" where
  "demo_rows = [
     JObj [(''query'', JStr ''How is my portfolio performing today?''),
           (''tool_definitions'', tool_definitions),
           (''scenario_id'', JStr ''test_01''),
           (''scenario_type'', JStr ''portfolio_analysis''),
           (''expected_tool'', JStr ''PortfolioAnalysisTool''),
           (''expected_params'', JObj [(''valuationDate'', JStr ''today'')])],
     JObj [(''query'', JStr ''What was my portfolio value yesterday?''),
           (''tool_definitions'', tool_definitions),
           (''scenario_id'', JStr ''test_02''),
           (''scenario_type'', JStr ''portfolio_analysis''),
           (''expected_tool'', JStr ''PortfolioAnalysisTool''),
           (''expected_params'', JObj [(''valuationDate'', JStr ''yesterday'')])],
     JObj [(''query'', JStr ''Can you analyze my portfolio for November 15, 2025?''),
           (''tool_definitions'', tool_definitions),
           (''scenario_id'', JStr ''test_03''),
           (''scenario_type'', JStr ''portfolio_analysis''),
           (''expected_tool'', JStr ''PortfolioAnalysisTool''),
           (''expected_params'', JObj [(''valuationDate'', JStr ''2025-11-15'')])]]"

definition demo_world :: "(nat \<Rightarrow> request \<Rightarrow> exn + http_response) \<Rightarrow> world" where
  "demo_world net =
     \<lparr>network = net, utcnow = demo_clock, requests = [], clock_reads = 0,
      files = [''portfolio_test_dataset.jsonl'' \<mapsto> demo_rows]\<rparr>"

definition empty_world :: world where
  "empty_world =
     \<lparr>network = refusing_network, utcnow = demo_clock, requests = [], clock_reads = 0,
      files = Map.empty\<rparr>"

definition demo_client :: client where
  "demo_client = aenter (PortfolioManagerApiClient ''http://localhost:5000'')"

section \<open>The API client\<close>

lemma session_entered: "session (aenter (PortfolioManagerApiClient url))"
  by (simp add: aenter_def PortfolioManagerApiClient_def)

lemma health_url_entered:
  "health_url (aenter (PortfolioManagerApiClient url)) = rstrip_slash url @ ''/api/ai/chat/health''"
  by (simp add: health_url_def aenter_def PortfolioManagerApiClient_def)

lemma demo_client_simps:
  "session demo_client" "base_url demo_client = ''http://localhost:5000''"
  by (simp_all add: demo_client_def aenter_def PortfolioManagerApiClient_def rstrip_slash_def)

lemma health_check_entered:
  "health_check (aenter (PortfolioManagerApiClient url)) w =
     (Inr (healthy url w),
      w\<lparr>requests := requests w @ [GET (health_url (aenter (PortfolioManagerApiClient url)))]\<rparr>)"
  by (simp add: health_check_def health_check_try_def session_request_def healthy_def
        session_entered split: sum.splits)

text \<open>
  C6. \<^verbatim>\<open>health_check\<close> never raises: it always returns a boolean. The boolean is true
  exactly when the client has a session and the GET to the fixed health address
  \<^verbatim>\<open><base>/api/ai/chat/health\<close> comes back with status 200; a request that raises (a
  refused connection, a timeout of the HTTP library) and any other status give false.
  With a session, exactly one GET is issued.
\<close>

theorem health_check_never_raises:
  "\<exists>b w'. health_check c w = (Inr b, w')
     \<and> (b \<longleftrightarrow> session c \<and>
          (\<exists>r. network w (length (requests w)) (GET (base_url c @ ''/api/ai/chat/health'')) = Inr r
               \<and> status r = 200))
     \<and> requests w' =
         (if session c then requests w @ [GET (base_url c @ ''/api/ai/chat/health'')]
          else requests w)"
  by (auto simp: health_check_def health_check_try_def session_request_def health_url_def
           split: sum.splits)

theorem health_check_never_raises_witness:
  "\<exists>w'. health_check demo_client (demo_world refusing_network) = (Inr False, w')
     \<and> requests w' = [GET ''http://localhost:5000/api/ai/chat/health'']"
  using health_check_never_raises [of demo_client "demo_world refusing_network"]
  by (auto simp: demo_client_simps demo_world_def refusing_network_def)

text \<open>
  C5, as the code has it. With a session, \<^verbatim>\<open>send_chat_query\<close> makes of the outcome of
  its one POST: a failure raised by the request is re-raised unchanged; a status other
  than 200 whose body text can be read raises a plain \<^verbatim>\<open>Exception\<close> whose message is
  \<^verbatim>\<open>API Error <status>: <body>\<close>; a status other than 200 whose body cannot be read
  re-raises the failure of the read; status 200 gives whatever parsing the body as JSON
  gives, the parsed document or the failure of the parse, unchanged. No class of its own
  is given to any of these failures.
\<close>

theorem send_chat_query_outcomes:
  assumes "session c"
    and "outcome = network w (length (requests w))
                     (POST (base_url c @ ''/api/ai/chat/query'')
                        (JObj [(''query'', q), (''accountId'', JInt a),
                               (''threadId'', (case t of None \<Rightarrow> JNull | Some n \<Rightarrow> JInt n))])
                        [(''Content-Type'', ''application/json''),
                         (''Accept'', ''application/json'')])"
  shows "(\<forall>ex. outcome = Inl ex \<longrightarrow> fst (send_chat_query c q a t w) = Inl ex)
       \<and> (\<forall>r body. outcome = Inr r \<and> status r \<noteq> 200 \<and> text_result r = Inr body \<longrightarrow>
            fst (send_chat_query c q a t w)
              = Inl (Exn ''Exception'' (''API Error '' @ str_int (status r) @ '': '' @ body)))
       \<and> (\<forall>r ex. outcome = Inr r \<and> status r \<noteq> 200 \<and> text_result r = Inl ex \<longrightarrow>
            fst (send_chat_query c q a t w) = Inl ex)
       \<and> (\<forall>r. outcome = Inr r \<and> status r = 200 \<longrightarrow>
            fst (send_chat_query c q a t w) = json_result r)"
  using assms
  by (auto simp: send_chat_query_def session_request_def chat_query_result_def query_url_def
        query_payload_def query_headers_def split: sum.splits)

theorem send_chat_query_outcomes_witness:
  "fst (send_chat_query demo_client (JStr ''How is my portfolio performing today?'') 1 None
          (demo_world mock_network))
     = Inr (JObj [(''response'', JStr ''All good'')])"
  using send_chat_query_outcomes [of demo_client
          "mock_network 0
             (POST (base_url demo_client @ ''/api/ai/chat/query'')
                (JObj [(''query'', JStr ''How is my portfolio performing today?''),
                       (''accountId'', JInt 1), (''threadId'', JNull)])
                [(''Content-Type'', ''application/json''), (''Accept'', ''application/json'')])"
          "demo_world mock_network" "JStr ''How is my portfolio performing today?''" 1 None]
  by (simp add: demo_client_simps demo_world_def mock_network_def mock_response_def)

text \<open>
  C5 as stated fails: the service answers 503 and the connection drops before the body
  arrives. The call has a status other than 200, yet what it raises is the failure of the
  read, which carries neither the status nor a body text. And where the body can be read,
  the error raised for a 500 is of the class \<^verbatim>\<open>Exception\<close> itself.
\<close>

theorem send_chat_query_unreadable_body:
  "status truncated_response = 503
   \<and> fst (send_chat_query demo_client (JStr ''How is my portfolio performing today?'') 1 None
            (demo_world truncating_network))
       = Inl (Exn ''ClientPayloadError'' ''Response payload is not completed'')
   \<and> fst (send_chat_query demo_client (JStr ''How is my portfolio performing today?'') 1 None
            (demo_world erroring_network))
       = Inl (Exn ''Exception'' ''API Error 500: Internal Server Error'')"
  by (simp add: send_chat_query_def session_request_def chat_query_result_def
        demo_client_simps demo_world_def truncating_network_def truncated_response_def
        erroring_network_def error_response_def str_int_def)

section \<open>The response collector\<close>

subsection \<open>Dictionaries and files\<close>

lemma map_of_dict_set: "map_of (dict_set d k v) k' = (if k' = k then Some v else map_of d k')"
  by (simp add: dict_set_def update_conv')

lemma map_of_error_scenario:
  "map_of (error_scenario d ex ts) k =
     (if k = ''timestamp'' then Some (JStr ts)
      else if k = ''error'' then Some (JStr (exn_str ex))
      else if k = ''tool_calls'' then Some (JList [])
      else if k = ''response'' then Some (JStr (''Error: '' @ exn_str ex))
      else map_of d k)"
  by (simp add: error_scenario_def map_of_dict_set)

lemma map_of_enriched_scenario:
  "map_of (enriched_scenario d r p ts) k =
     (if k = ''timestamp'' then Some (JStr ts)
      else if k = ''api_response_full'' then Some p
      else if k = ''tool_calls'' then Some (JList [])
      else if k = ''response'' then Some r
      else map_of d k)"
  by (simp add: enriched_scenario_def map_of_dict_set)

lemma files_fold_writer_write:
  "files w path = Some ls \<Longrightarrow> files (fold (writer_write path) rows w) path = Some (ls @ rows)"
  by (induction rows arbitrary: w ls) (simp_all add: writer_write_def)

lemma files_write_all: "files (write_all path rows w) path = Some rows"
  by (simp add: write_all_def files_fold_writer_write open_write_def)

subsection \<open>One scenario\<close>

lemma scenario_posts_simps:
  "scenario_posts c a [] = []"
  "scenario_posts c a (row # rows) = scenario_posts c a [row] @ scenario_posts c a rows"
  by (simp_all add: scenario_posts_def)

lemma map_of_outcome_record_keeps:
  "k \<notin> set enrichment_keys \<Longrightarrow> map_of (outcome_record d res ts) k = map_of d k"
  by (simp add: outcome_record_def enrichment_keys_def map_of_error_scenario
        map_of_enriched_scenario split: sum.splits)

lemma map_of_outcome_record_always:
  "map_of (outcome_record d res ts) ''response'' \<noteq> None"
  "map_of (outcome_record d res ts) ''tool_calls'' = Some (JList [])"
  "map_of (outcome_record d res ts) ''timestamp'' = Some (JStr ts)"
  by (simp_all add: outcome_record_def map_of_error_scenario map_of_enriched_scenario
        split: sum.splits)

lemma outcome_record_cases:
  "(\<exists>response payload. outcome_record d res ts = enriched_scenario d response payload ts)
   \<or> (\<exists>ex. outcome_record d res ts = error_scenario d ex ts)"
  by (auto simp: outcome_record_def split: sum.splits)

text \<open>
  A scenario collected through an entered client reads the clock once and sends one POST
  if it has a query, none if it has not; its record is decided by the outcome of that
  call (the KeyError of the missing query when there is none).
\<close>

lemma collect_scenario_exact:
  assumes "session c"
  shows "collect_scenario c a d w =
           (outcome_record d (scenario_call c a w (length (requests w)) (JObj d))
              (utcnow w (clock_reads w)),
            w\<lparr>requests := requests w @ scenario_posts c a [JObj d],
               clock_reads := Suc (clock_reads w)\<rparr>)"
  using assms
  by (auto simp: collect_scenario_def collect_try_def collect_except_def utcnow_isoformat_def
        outcome_record_def scenario_call_def scenario_posts_def subscript_def
        send_chat_query_def session_request_def
        split: sum.splits prod.splits option.splits)

subsection \<open>The loop\<close>

text \<open>
  Over rows that are objects with a \<^verbatim>\<open>scenario_type\<close> the loop never raises. It
  appends one record per row, in order; the record of row i is decided by the outcome of
  the request that follows the POSTs of the rows before it, and is stamped with the i-th
  reading of the clock. The requests sent are the POSTs of the rows, in order.
\<close>

lemma collect_loop_pointwise:
  assumes "session c"
    and "\<forall>row\<in>set rows. field row ''scenario_type'' \<noteq> None"
  shows "\<exists>outs w'. collect_loop c a rows acc w = (Inr (acc @ outs), w')
           \<and> length outs = length rows
           \<and> files w' = files w
           \<and> requests w' = requests w @ scenario_posts c a rows
           \<and> (\<forall>i<length rows. \<exists>d. rows ! i = JObj d
                \<and> outs ! i = JObj (outcome_record d
                     (scenario_call c a w
                        (length (requests w) + length (scenario_posts c a (take i rows)))
                        (rows ! i))
                     (utcnow w (clock_reads w + i))))"
  using assms(2)
proof (induction rows arbitrary: acc w)
  case Nil
  then show ?case by (simp add: scenario_posts_simps)
next
  case (Cons row rows)
  from Cons.prems obtain d where d: "row = JObj d" "map_of d ''scenario_type'' \<noteq> None"
    by (auto simp: field_def split: json.splits)
  define r where "r = outcome_record d (scenario_call c a w (length (requests w)) (JObj d))
              (utcnow w (clock_reads w))"
  define w1 where "w1 = w\<lparr>requests := requests w @ scenario_posts c a [JObj d],
               clock_reads := Suc (clock_reads w)\<rparr>"
  have step: "collect_scenario c a d w = (r, w1)"
    unfolding r_def w1_def using assms(1) by (rule collect_scenario_exact)
  have w1: "network w1 = network w" "utcnow w1 = utcnow w" "files w1 = files w"
     "requests w1 = requests w @ scenario_posts c a [row]"
     "clock_reads w1 = Suc (clock_reads w)"
    by (simp_all add: w1_def d)
  have call: "scenario_call c a w1 = scenario_call c a w"
    by (intro ext) (simp add: scenario_call_def w1 split: sum.splits)
  from Cons.prems have "\<forall>row\<in>set rows. field row ''scenario_type'' \<noteq> None"
    by simp
  from Cons.IH [OF this, of "acc @ [JObj r]" w1]
  obtain outs w' where rest:
    "collect_loop c a rows (acc @ [JObj r]) w1 = (Inr ((acc @ [JObj r]) @ outs), w')"
    "length outs = length rows"
    "files w' = files w"
    "requests w' = (requests w @ scenario_posts c a [row]) @ scenario_posts c a rows"
    "\<forall>i<length rows. \<exists>d. rows ! i = JObj d
                \<and> outs ! i = JObj (outcome_record d
                     (scenario_call c a w
                        (length (requests w @ scenario_posts c a [row])
                           + length (scenario_posts c a (take i rows)))
                        (rows ! i))
                     (utcnow w (Suc (clock_reads w) + i)))"
    unfolding call w1 by blast
  have run: "collect_loop c a (row # rows) acc w = (Inr (acc @ (JObj r # outs)), w')"
    using d step rest(1) by auto
  have posts: "requests w' = requests w @ scenario_posts c a (row # rows)"
    using rest(4) by (subst scenario_posts_simps(2)) simp
  have "\<exists>d. (row # rows) ! i = JObj d
          \<and> (JObj r # outs) ! i = JObj (outcome_record d
                (scenario_call c a w
                   (length (requests w) + length (scenario_posts c a (take i (row # rows))))
                   ((row # rows) ! i))
                (utcnow w (clock_reads w + i)))" if "i < length (row # rows)" for i
  proof (cases i)
    case 0
    then show ?thesis by (simp add: d r_def scenario_posts_simps)
  next
    case (Suc j)
    with that have j: "j < length rows" by simp
    have "length (scenario_posts c a (take (Suc j) (row # rows)))
            = length (scenario_posts c a [row]) + length (scenario_posts c a (take j rows))"
      by (simp add: scenario_posts_simps(2) [of c a row "take j rows"])
    with rest(5) j Suc show ?thesis by (simp add: add.assoc)
  qed
  with run rest(2,3) posts show ?case
    by (intro exI [of _ "JObj r # outs"] exI [of _ w']) simp
qed

subsection \<open>The run\<close>

lemma write_all_requests: "requests (write_all path rows w) = requests w"
proof -
  have "requests (fold (writer_write path) rows v) = requests v" for v
    by (induction rows arbitrary: v) (simp_all add: writer_write_def)
  then show ?thesis by (simp add: write_all_def open_write_def)
qed

lemma collect_run_pointwise:
  assumes "files w path = Some rows"
    and "healthy url w"
    and "\<forall>row\<in>set rows. field row ''scenario_type'' \<noteq> None"
  shows "\<exists>w' out.
           collect_ai_responses path url a w
             = (Inr (str_replace path ''.jsonl'' ''_with_responses.jsonl''), w')
         \<and> files w' (str_replace path ''.jsonl'' ''_with_responses.jsonl'') = Some out
         \<and> length out = length rows
         \<and> requests w' = requests w
              @ GET (health_url (aenter (PortfolioManagerApiClient url)))
              # scenario_posts (aenter (PortfolioManagerApiClient url)) a rows
         \<and> (\<forall>i<length rows. \<exists>d. rows ! i = JObj d
              \<and> out ! i = JObj (outcome_record d
                   (scenario_call (aenter (PortfolioManagerApiClient url)) a w
                      (Suc (length (requests w))
                         + length (scenario_posts (aenter (PortfolioManagerApiClient url)) a
                                     (take i rows)))
                      (rows ! i))
                   (utcnow w (clock_reads w + i))))"
proof -
  define c where "c = aenter (PortfolioManagerApiClient url)"
  define w1 where "w1 = w\<lparr>requests := requests w @ [GET (health_url c)]\<rparr>"
  have c: "session c" by (simp add: c_def session_entered)
  have call: "scenario_call c a w1 = scenario_call c a w"
    by (intro ext) (simp add: scenario_call_def w1_def split: sum.splits)
  from collect_loop_pointwise [OF c assms(3), of a "[]" w1]
  obtain outs w2 where loop: "collect_loop c a rows [] w1 = (Inr outs, w2)"
    and len: "length outs = length rows"
    and reqs: "requests w2 = requests w @ GET (health_url c) # scenario_posts c a rows"
    and each: "\<forall>i<length rows. \<exists>d. rows ! i = JObj d
                \<and> outs ! i = JObj (outcome_record d
                     (scenario_call c a w
                        (Suc (length (requests w)) + length (scenario_posts c a (take i rows)))
                        (rows ! i))
                     (utcnow w (clock_reads w + i)))"
    unfolding call by (auto simp: w1_def)
  have "collect_ai_responses path url a w
          = (Inr (str_replace path ''.jsonl'' ''_with_responses.jsonl''),
             write_all (str_replace path ''.jsonl'' ''_with_responses.jsonl'') outs w2)"
    using assms(1,2) loop
    by (simp add: collect_ai_responses_def read_all_def health_check_entered c_def w1_def Let_def)
  with len reqs each show ?thesis
    unfolding c_def by (simp add: files_write_all write_all_requests)
qed

lemma demo_enriched_path:
  "str_replace ''portfolio_test_dataset.jsonl'' ''.jsonl'' ''_with_responses.jsonl''
     = ''portfolio_test_dataset_with_responses.jsonl''"
  by (simp add: str_replace_def numeral_eq_Suc)

lemma demo_files:
  "files (demo_world net) ''portfolio_test_dataset.jsonl'' = Some demo_rows"
  by (simp add: demo_world_def)

lemma demo_length: "length demo_rows = 3"
  by (simp add: demo_rows_def)

lemma demo_healthy:
  "healthy ''http://localhost:5000'' (demo_world mock_network)"
  "healthy ''http://localhost:5000'' (demo_world faulty_network)"
  "healthy ''http://localhost:5000'' (demo_world null_network)"
  by (simp_all add: healthy_def demo_world_def mock_network_def faulty_network_def
        null_network_def mock_response_def)

lemma demo_unhealthy: "\<not> healthy ''http://localhost:5000'' (demo_world refusing_network)"
  by (simp add: healthy_def demo_world_def refusing_network_def)

lemma demo_world_simps:
  "requests (demo_world net) = []" "clock_reads (demo_world net) = 0"
  "utcnow (demo_world net) = demo_clock" "network (demo_world net) = net"
  by (simp_all add: demo_world_def)

lemma demo_clock_simps:
  "demo_clock 0 = ''2025-11-18T10:00:00.000000''"
  "demo_clock (Suc 0) = ''2025-11-18T10:00:00.000001''"
  "demo_clock (Suc (Suc 0)) = ''2025-11-18T10:00:00.000002''"
  by (simp_all add: demo_clock_def)

lemma demo_posts:
  "scenario_posts (aenter (PortfolioManagerApiClient ''http://localhost:5000'')) 1 demo_rows
     = [POST ''http://localhost:5000/api/ai/chat/query''
          (JObj [(''query'', JStr ''How is my portfolio performing today?''),
                 (''accountId'', JInt 1), (''threadId'', JNull)])
          [(''Content-Type'', ''application/json''), (''Accept'', ''application/json'')],
        POST ''http://localhost:5000/api/ai/chat/query''
          (JObj [(''query'', JStr ''What was my portfolio value yesterday?''),
                 (''accountId'', JInt 1), (''threadId'', JNull)])
          [(''Content-Type'', ''application/json''), (''Accept'', ''application/json'')],
        POST ''http://localhost:5000/api/ai/chat/query''
          (JObj [(''query'', JStr ''Can you analyze my portfolio for November 15, 2025?''),
                 (''accountId'', JInt 1), (''threadId'', JNull)])
          [(''Content-Type'', ''application/json''), (''Accept'', ''application/json'')]]"
  by (simp add: scenario_posts_def demo_rows_def subscript_def query_url_def query_payload_def
        query_headers_def aenter_def PortfolioManagerApiClient_def rstrip_slash_def)

text \<open>
  C1. When the dataset file can be read, the health check succeeds and every row is a
  scenario (an object with a \<^verbatim>\<open>scenario_type\<close>), the run returns the path of the
  enriched file, and that file holds exactly as many records as the dataset has rows.
  The i-th record is an enrichment of the i-th row: either the row with a response and a
  payload written into it or the row with an error written into it, stamped with the
  i-th reading of the clock; so it has a \<^verbatim>\<open>response\<close>, the empty
  \<^verbatim>\<open>tool_calls\<close> and that \<^verbatim>\<open>timestamp\<close>, and every other field of the row
  unchanged. The requests of the run are the GET of the health check and then the POSTs
  of the rows, one for each row that has a query, in the order of the rows. Nothing is
  assumed about the calls to the service: how many of them fail does not matter.
\<close>

theorem collect_length_and_order:
  assumes "files w path = Some rows"
    and "healthy url w"
    and "\<forall>row\<in>set rows. field row ''scenario_type'' \<noteq> None"
  shows "\<exists>w' out.
           collect_ai_responses path url a w
             = (Inr (str_replace path ''.jsonl'' ''_with_responses.jsonl''), w')
         \<and> files w' (str_replace path ''.jsonl'' ''_with_responses.jsonl'') = Some out
         \<and> length out = length rows
         \<and> (\<forall>i<length rows.
               derived_from (rows ! i) (out ! i)
             \<and> (\<exists>d. rows ! i = JObj d
                  \<and> ((\<exists>response payload. out ! i =
                         JObj (enriched_scenario d response payload (utcnow w (clock_reads w + i))))
                     \<or> (\<exists>ex. out ! i =
                         JObj (error_scenario d ex (utcnow w (clock_reads w + i))))))
             \<and> field (out ! i) ''response'' \<noteq> None
             \<and> field (out ! i) ''tool_calls'' = Some (JList [])
             \<and> field (out ! i) ''timestamp'' = Some (JStr (utcnow w (clock_reads w + i))))
         \<and> requests w' = requests w
              @ GET (rstrip_slash url @ ''/api/ai/chat/health'')
              # scenario_posts (aenter (PortfolioManagerApiClient url)) a rows"
proof -
  from collect_run_pointwise [OF assms, of a]
  obtain w' out where run:
      "collect_ai_responses path url a w
         = (Inr (str_replace path ''.jsonl'' ''_with_responses.jsonl''), w')"
      "files w' (str_replace path ''.jsonl'' ''_with_responses.jsonl'') = Some out"
      "length out = length rows"
      "requests w' = requests w
              @ GET (rstrip_slash url @ ''/api/ai/chat/health'')
              # scenario_posts (aenter (PortfolioManagerApiClient url)) a rows"
    and each: "\<forall>i<length rows. \<exists>d res. rows ! i = JObj d
              \<and> out ! i = JObj (outcome_record d res (utcnow w (clock_reads w + i)))"
    unfolding health_url_entered by blast
  have "derived_from (rows ! i) (out ! i)
      \<and> (\<exists>d. rows ! i = JObj d
           \<and> ((\<exists>response payload. out ! i =
                  JObj (enriched_scenario d response payload (utcnow w (clock_reads w + i))))
              \<or> (\<exists>ex. out ! i =
                  JObj (error_scenario d ex (utcnow w (clock_reads w + i))))))
      \<and> field (out ! i) ''response'' \<noteq> None
      \<and> field (out ! i) ''tool_calls'' = Some (JList [])
      \<and> field (out ! i) ''timestamp'' = Some (JStr (utcnow w (clock_reads w + i)))"
    if i: "i < length rows" for i
  proof -
    from each i obtain d res where d: "rows ! i = JObj d"
      and o: "out ! i = JObj (outcome_record d res (utcnow w (clock_reads w + i)))"
      by blast
    have "derived_from (rows ! i) (out ! i)"
      unfolding d o by (simp add: derived_from_def map_of_outcome_record_keeps)
    moreover have "(\<exists>response payload. out ! i =
                  JObj (enriched_scenario d response payload (utcnow w (clock_reads w + i))))
              \<or> (\<exists>ex. out ! i =
                  JObj (error_scenario d ex (utcnow w (clock_reads w + i))))"
      unfolding o using outcome_record_cases [of d res "utcnow w (clock_reads w + i)"]
      by simp
    moreover have "field (out ! i) ''response'' \<noteq> None"
      "field (out ! i) ''tool_calls'' = Some (JList [])"
      "field (out ! i) ''timestamp'' = Some (JStr (utcnow w (clock_reads w + i)))"
      unfolding o by (simp_all add: field_def map_of_outcome_record_always)
    ultimately show ?thesis
      using d by blast
  qed
  with run show ?thesis by blast
qed

theorem collect_length_and_order_witness:
  "\<exists>w' out.
     collect_ai_responses ''portfolio_test_dataset.jsonl'' ''http://localhost:5000'' 1
         (demo_world faulty_network)
       = (Inr ''portfolio_test_dataset_with_responses.jsonl'', w')
     \<and> files w' ''portfolio_test_dataset_with_responses.jsonl'' = Some out
     \<and> length out = 3
     \<and> derived_from (demo_rows ! 0) (out ! 0)
     \<and> derived_from (demo_rows ! 1) (out ! 1)
     \<and> derived_from (demo_rows ! 2) (out ! 2)
     \<and> field (out ! 0) ''timestamp'' = Some (JStr ''2025-11-18T10:00:00.000000'')
     \<and> field (out ! 1) ''timestamp'' = Some (JStr ''2025-11-18T10:00:00.000001'')
     \<and> field (out ! 2) ''timestamp'' = Some (JStr ''2025-11-18T10:00:00.000002'')
     \<and> field (out ! 1) ''tool_calls'' = Some (JList [])
     \<and> requests w' =
         [GET ''http://localhost:5000/api/ai/chat/health'',
          POST ''http://localhost:5000/api/ai/chat/query''
            (JObj [(''query'', JStr ''How is my portfolio performing today?''),
                   (''accountId'', JInt 1), (''threadId'', JNull)])
            [(''Content-Type'', ''application/json''), (''Accept'', ''application/json'')],
          POST ''http://localhost:5000/api/ai/chat/query''
            (JObj [(''query'', JStr ''What was my portfolio value yesterday?''),
                   (''accountId'', JInt 1), (''threadId'', JNull)])
            [(''Content-Type'', ''application/json''), (''Accept'', ''application/json'')],
          POST ''http://localhost:5000/api/ai/chat/query''
            (JObj [(''query'', JStr ''Can you analyze my portfolio for November 15, 2025?''),
                   (''accountId'', JInt 1), (''threadId'', JNull)])
            [(''Content-Type'', ''application/json''), (''Accept'', ''application/json'')]]"
proof -
  have "\<forall>row\<in>set demo_rows. field row ''scenario_type'' \<noteq> None"
    by (simp add: demo_rows_def field_def)
  from collect_length_and_order [OF demo_files demo_healthy(2) this, of 1]
  obtain w' out where run:
     "collect_ai_responses ''portfolio_test_dataset.jsonl'' ''http://localhost:5000'' 1
         (demo_world faulty_network) = (Inr ''portfolio_test_dataset_with_responses.jsonl'', w')"
     "files w' ''portfolio_test_dataset_with_responses.jsonl'' = Some out"
     "length out = 3"
    and reqs: "requests w' = requests (demo_world faulty_network)
              @ GET (rstrip_slash ''http://localhost:5000'' @ ''/api/ai/chat/health'')
              # scenario_posts (aenter (PortfolioManagerApiClient ''http://localhost:5000'')) 1
                  demo_rows"
    and each: "\<forall>i<3. derived_from (demo_rows ! i) (out ! i)
             \<and> field (out ! i) ''tool_calls'' = Some (JList [])
             \<and> field (out ! i) ''timestamp''
                 = Some (JStr (utcnow (demo_world faulty_network)
                                 (clock_reads (demo_world faulty_network) + i)))"
    unfolding demo_enriched_path demo_length by blast
  note e0 = each [rule_format, of 0] and e1 = each [rule_format, of 1]
    and e2 = each [rule_format, of 2]
  have "requests w' =
         GET ''http://localhost:5000/api/ai/chat/health''
         # scenario_posts (aenter (PortfolioManagerApiClient ''http://localhost:5000'')) 1
             demo_rows"
    using reqs by (simp add: demo_world_simps rstrip_slash_def)
  then show ?thesis
    using run e0 e1 e2 unfolding demo_posts
    by (simp add: demo_world_simps demo_clock_simps)
qed

text \<open>
  C2. When the dataset file can be read and the health check fails, the run raises the
  run-level error that names the address, having sent the one GET of the health check
  and no POST, and having written no file.
\<close>

theorem collect_fails_fast_when_unhealthy:
  assumes "files w path = Some rows"
    and "\<not> healthy url w"
  shows "\<exists>w'.
           collect_ai_responses path url a w
             = (Inl (Exn ''Exception''
                       (''Portfolio Manager API at '' @ url
                        @ '' is not healthy. Please ensure it's running.'')), w')
         \<and> requests w' = requests w @ [GET (rstrip_slash url @ ''/api/ai/chat/health'')]
         \<and> files w' = files w"
  using assms
  by (simp add: collect_ai_responses_def read_all_def health_check_entered Let_def
        health_url_entered)

theorem collect_fails_fast_when_unhealthy_witness:
  "\<exists>w'.
     collect_ai_responses ''portfolio_test_dataset.jsonl'' ''http://localhost:5000'' 1
         (demo_world refusing_network)
       = (Inl (Exn ''Exception''
            ''Portfolio Manager API at http://localhost:5000 is not healthy. Please ensure it's running.''),
          w')
     \<and> requests w' = [GET ''http://localhost:5000/api/ai/chat/health'']
     \<and> files w' ''portfolio_test_dataset_with_responses.jsonl'' = None"
  using collect_fails_fast_when_unhealthy [OF demo_files demo_unhealthy, of 1]
  by (auto simp: rstrip_slash_def demo_world_def)

subsection \<open>Record by record\<close>

lemma length_scenario_posts:
  assumes "\<forall>row\<in>set rows. field row ''query'' \<noteq> None"
  shows "length (scenario_posts c a rows) = length rows"
  using assms
proof (induction rows)
  case Nil
  then show ?case by (simp add: scenario_posts_simps)
next
  case (Cons row rows)
  from Cons.prems have "field row ''query'' \<noteq> None" by simp
  then have "length (scenario_posts c a [row]) = 1"
    by (cases row) (auto simp: scenario_posts_def subscript_def field_def)
  with Cons show ?case
    by (simp add: scenario_posts_simps(2) [of c a row rows])
qed

lemma length_scenario_posts_take:
  assumes "\<forall>row\<in>set rows. field row ''query'' \<noteq> None" "i < length rows"
  shows "length (scenario_posts c a (take i rows)) = i"
proof -
  from assms(1) have "\<forall>row\<in>set (take i rows). field row ''query'' \<noteq> None"
    by (meson in_set_takeD)
  then have "length (scenario_posts c a (take i rows)) = length (take i rows)"
    by (rule length_scenario_posts)
  with assms(2) show ?thesis by simp
qed

text \<open>
  When every row has a query, the POST of the i-th row is the request that follows the
  health check and the POSTs of the i rows before it.
\<close>

lemma collect_run_own_call:
  assumes "files w path = Some rows"
    and "healthy url w"
    and "\<forall>row\<in>set rows. field row ''scenario_type'' \<noteq> None \<and> field row ''query'' \<noteq> None"
  shows "\<exists>w' out.
           collect_ai_responses path url a w
             = (Inr (str_replace path ''.jsonl'' ''_with_responses.jsonl''), w')
         \<and> files w' (str_replace path ''.jsonl'' ''_with_responses.jsonl'') = Some out
         \<and> length out = length rows
         \<and> (\<forall>i<length rows. \<exists>d. rows ! i = JObj d
              \<and> out ! i = JObj (outcome_record d (own_call url a w rows i)
                                 (utcnow w (clock_reads w + i))))"
proof -
  from assms(3) have types: "\<forall>row\<in>set rows. field row ''scenario_type'' \<noteq> None"
    and queries: "\<forall>row\<in>set rows. field row ''query'' \<noteq> None"
    by simp_all
  from collect_run_pointwise [OF assms(1,2) types, of a]
  obtain w' out where run:
      "collect_ai_responses path url a w
         = (Inr (str_replace path ''.jsonl'' ''_with_responses.jsonl''), w')"
      "files w' (str_replace path ''.jsonl'' ''_with_responses.jsonl'') = Some out"
      "length out = length rows"
    and each: "\<forall>i<length rows. \<exists>d. rows ! i = JObj d
              \<and> out ! i = JObj (outcome_record d
                   (scenario_call (aenter (PortfolioManagerApiClient url)) a w
                      (Suc (length (requests w))
                         + length (scenario_posts (aenter (PortfolioManagerApiClient url)) a
                                     (take i rows)))
                      (rows ! i))
                   (utcnow w (clock_reads w + i)))"
    by blast
  have "\<exists>d. rows ! i = JObj d
              \<and> out ! i = JObj (outcome_record d (own_call url a w rows i)
                                 (utcnow w (clock_reads w + i)))"
    if i: "i < length rows" for i
  proof -
    from each i obtain d where "rows ! i = JObj d"
      "out ! i = JObj (outcome_record d
                   (scenario_call (aenter (PortfolioManagerApiClient url)) a w
                      (Suc (length (requests w))
                         + length (scenario_posts (aenter (PortfolioManagerApiClient url)) a
                                     (take i rows)))
                      (rows ! i))
                   (utcnow w (clock_reads w + i)))"
      by blast
    then show ?thesis
      by (simp add: own_call_def length_scenario_posts_take [OF queries i])
  qed
  with run show ?thesis by blast
qed

lemma is_object_cases:
  "is_object p \<Longrightarrow> \<exists>payload. p = JObj payload"
  "\<not> is_object p \<Longrightarrow> \<exists>ex. py_get p k dflt = Inl ex"
  "py_get p k dflt = Inl ex \<Longrightarrow> \<not> is_object p"
  by (cases p; simp add: is_object_def py_get_def)+

lemma field_outcome_record_failed:
  "field (JObj (outcome_record d (Inl ex) ts)) k = map_of (error_scenario d ex ts) k"
  by (simp add: field_def outcome_record_def)

lemma field_outcome_record_object:
  "field (JObj (outcome_record d (Inr (JObj payload)) ts)) k
     = map_of (enriched_scenario d
         (case map_of payload ''response'' of None \<Rightarrow> JStr ''No response'' | Some v \<Rightarrow> v)
         (JObj payload) ts) k"
  by (simp add: field_def outcome_record_def py_get_def)

lemma field_outcome_record_no_object:
  "py_get p ''response'' (JStr ''No response'') = Inl ex \<Longrightarrow>
   field (JObj (outcome_record d (Inr p) ts)) k = map_of (error_scenario d ex ts) k"
  by (simp add: field_def outcome_record_def)

subsection \<open>The example runs\<close>

lemma demo_rows_fields:
  "\<forall>row\<in>set demo_rows. field row ''scenario_type'' \<noteq> None \<and> field row ''query'' \<noteq> None"
  "\<forall>row\<in>set demo_rows. field row ''error'' = None"
  "\<forall>row\<in>set demo_rows. field row ''api_response_full'' = None"
  by (simp_all add: demo_rows_def field_def)

lemma field_object: "field row k \<noteq> None \<Longrightarrow> \<exists>d v. row = JObj d \<and> map_of d k = Some v"
  by (cases row) (auto simp: field_def)

lemma demo_rows_query:
  assumes "i < 3"
  shows "\<exists>d q. demo_rows ! i = JObj d \<and> map_of d ''query'' = Some q"
proof -
  from assms have "demo_rows ! i \<in> set demo_rows"
    by (simp add: demo_length)
  with demo_rows_fields(1) have "field (demo_rows ! i) ''query'' \<noteq> None"
    by blast
  then show ?thesis
    using field_object by blast
qed

lemma own_call_faulty:
  assumes "i < 3"
  shows "own_call url a (demo_world faulty_network) demo_rows i =
     (if i = 1 then Inl (Exn ''Exception'' ''API Error 500: Internal Server Error'')
      else Inr (JObj [(''response'', JStr ''All good'')]))"
proof -
  from demo_rows_query [OF assms]
  obtain d q where "demo_rows ! i = JObj d" "map_of d ''query'' = Some q"
    by blast
  then show ?thesis
    by (simp add: own_call_def scenario_call_def subscript_def demo_world_simps
          faulty_network_def chat_query_result_def mock_response_def error_response_def
          str_int_def)
qed

lemma own_call_mock:
  assumes "i < 3"
  shows "own_call url a (demo_world mock_network) demo_rows i
           = Inr (JObj [(''response'', JStr ''All good'')])"
proof -
  from demo_rows_query [OF assms]
  obtain d q where "demo_rows ! i = JObj d" "map_of d ''query'' = Some q"
    by blast
  then show ?thesis
    by (simp add: own_call_def scenario_call_def subscript_def demo_world_simps
          mock_network_def chat_query_result_def mock_response_def)
qed

lemma own_call_null:
  assumes "i < 3"
  shows "own_call url a (demo_world null_network) demo_rows i =
     (if i = 1 then Inr JNull else Inr (JObj [(''response'', JStr ''All good'')]))"
proof -
  from demo_rows_query [OF assms]
  obtain d q where "demo_rows ! i = JObj d" "map_of d ''query'' = Some q"
    by blast
  then show ?thesis
    by (simp add: own_call_def scenario_call_def subscript_def demo_world_simps
          null_network_def chat_query_result_def mock_response_def null_response_def)
qed

lemma demo_rows_nth_error:
  "field (demo_rows ! 0) ''error'' = None"
  "field (demo_rows ! Suc 0) ''error'' = None"
  "field (demo_rows ! 2) ''error'' = None"
  by (simp_all add: demo_rows_def field_def)

lemma demo_run_faulty:
  "enriched_rows (collect_ai_responses ''portfolio_test_dataset.jsonl'' ''http://localhost:5000'' 1
         (demo_world faulty_network))
   = [JObj (enriched_scenario
              [(''query'', JStr ''How is my portfolio performing today?''),
               (''tool_definitions'', tool_definitions),
               (''scenario_id'', JStr ''test_01''),
               (''scenario_type'', JStr ''portfolio_analysis''),
               (''expected_tool'', JStr ''PortfolioAnalysisTool''),
               (''expected_params'', JObj [(''valuationDate'', JStr ''today'')])]
              (JStr ''All good'') (JObj [(''response'', JStr ''All good'')])
              ''2025-11-18T10:00:00.000000''),
      JObj (error_scenario
              [(''query'', JStr ''What was my portfolio value yesterday?''),
               (''tool_definitions'', tool_definitions),
               (''scenario_id'', JStr ''test_02''),
               (''scenario_type'', JStr ''portfolio_analysis''),
               (''expected_tool'', JStr ''PortfolioAnalysisTool''),
               (''expected_params'', JObj [(''valuationDate'', JStr ''yesterday'')])]
              (Exn ''Exception'' ''API Error 500: Internal Server Error'')
              ''2025-11-18T10:00:00.000001''),
      JObj (enriched_scenario
              [(''query'', JStr ''Can you analyze my portfolio for November 15, 2025?''),
               (''tool_definitions'', tool_definitions),
               (''scenario_id'', JStr ''test_03''),
               (''scenario_type'', JStr ''portfolio_analysis''),
               (''expected_tool'', JStr ''PortfolioAnalysisTool''),
               (''expected_params'', JObj [(''valuationDate'', JStr ''2025-11-15'')])]
              (JStr ''All good'') (JObj [(''response'', JStr ''All good'')])
              ''2025-11-18T10:00:00.000002'')]"
  by (simp add: enriched_rows_def collect_ai_responses_def read_all_def health_check_entered
        healthy_def Let_def demo_rows_def demo_enriched_path files_write_all
        collect_scenario_def collect_try_def collect_except_def subscript_def
        send_chat_query_def session_entered session_request_def utcnow_isoformat_def
        chat_query_result_def py_get_def demo_world_def faulty_network_def mock_response_def
        error_response_def str_int_def demo_clock_def)

lemma demo_run_null:
  "enriched_rows (collect_ai_responses ''portfolio_test_dataset.jsonl'' ''http://localhost:5000'' 1
         (demo_world null_network))
   = [JObj (enriched_scenario
              [(''query'', JStr ''How is my portfolio performing today?''),
               (''tool_definitions'', tool_definitions),
               (''scenario_id'', JStr ''test_01''),
               (''scenario_type'', JStr ''portfolio_analysis''),
               (''expected_tool'', JStr ''PortfolioAnalysisTool''),
               (''expected_params'', JObj [(''valuationDate'', JStr ''today'')])]
              (JStr ''All good'') (JObj [(''response'', JStr ''All good'')])
              ''2025-11-18T10:00:00.000000''),
      JObj (error_scenario
              [(''query'', JStr ''What was my portfolio value yesterday?''),
               (''tool_definitions'', tool_definitions),
               (''scenario_id'', JStr ''test_02''),
               (''scenario_type'', JStr ''portfolio_analysis''),
               (''expected_tool'', JStr ''PortfolioAnalysisTool''),
               (''expected_params'', JObj [(''valuationDate'', JStr ''yesterday'')])]
              (Exn ''AttributeError''
                 (quoted ''NoneType'' @ '' object has no attribute '' @ quoted ''get''))
              ''2025-11-18T10:00:00.000001''),
      JObj (enriched_scenario
              [(''query'', JStr ''Can you analyze my portfolio for November 15, 2025?''),
               (''tool_definitions'', tool_definitions),
               (''scenario_id'', JStr ''test_03''),
               (''scenario_type'', JStr ''portfolio_analysis''),
               (''expected_tool'', JStr ''PortfolioAnalysisTool''),
               (''expected_params'', JObj [(''valuationDate'', JStr ''2025-11-15'')])]
              (JStr ''All good'') (JObj [(''response'', JStr ''All good'')])
              ''2025-11-18T10:00:00.000002'')]"
  by (simp add: enriched_rows_def collect_ai_responses_def read_all_def health_check_entered
        healthy_def Let_def demo_rows_def demo_enriched_path files_write_all
        collect_scenario_def collect_try_def collect_except_def subscript_def
        send_chat_query_def session_entered session_request_def utcnow_isoformat_def
        chat_query_result_def py_get_def py_type_name_def demo_world_def null_network_def
        mock_response_def null_response_def demo_clock_def)

text \<open>
  C3 as stated fails: in the run over three scenarios in which the call for the second
  one is answered with 200 and the JSON document \<^verbatim>\<open>null\<close>, that call succeeds and
  returns \<^verbatim>\<open>None\<close>; reading \<^verbatim>\<open>.get\<close> on it raises inside the \<^verbatim>\<open>try\<close>, and
  the second record carries an \<^verbatim>\<open>error\<close> although its own call did not fail.
\<close>

theorem null_payload_record_has_error:
  "own_call ''http://localhost:5000'' 1 (demo_world null_network) demo_rows 1 = Inr JNull
   \<and> field (enriched_rows
            (collect_ai_responses ''portfolio_test_dataset.jsonl'' ''http://localhost:5000'' 1
               (demo_world null_network)) ! 1) ''error''
       = Some (JStr (quoted ''NoneType'' @ '' object has no attribute '' @ quoted ''get''))"
  by (simp add: own_call_null demo_run_null field_def map_of_error_scenario)

text \<open>
  C3, as the code has it. In a run over scenarios (objects with a \<^verbatim>\<open>scenario_type\<close>
  and a \<^verbatim>\<open>query\<close> and no \<^verbatim>\<open>error\<close> field of their own), every record has a
  \<^verbatim>\<open>response\<close>. A record has an \<^verbatim>\<open>error\<close> exactly when the call made for its own
  row failed or returned a payload that is not a JSON object; the error is then the text
  of what was raised (the failure of the call, or the failure of \<^verbatim>\<open>.get\<close> on the
  payload) and the response is that text after \<^verbatim>\<open>Error: \<close>. When its own call
  returned an object, the response is the one of that payload. What a record carries
  depends on its own call alone, so a failure for row k leaves every other record with
  its normal response.
\<close>

theorem collect_error_exactly_on_failure:
  assumes "files w path = Some rows"
    and "healthy url w"
    and "\<forall>row\<in>set rows. field row ''scenario_type'' \<noteq> None \<and> field row ''query'' \<noteq> None"
    and "\<forall>row\<in>set rows. field row ''error'' = None"
  shows "\<exists>w' out.
           collect_ai_responses path url a w
             = (Inr (str_replace path ''.jsonl'' ''_with_responses.jsonl''), w')
         \<and> files w' (str_replace path ''.jsonl'' ''_with_responses.jsonl'') = Some out
         \<and> length out = length rows
         \<and> (\<forall>i<length rows.
               field (out ! i) ''response'' \<noteq> None
             \<and> (field (out ! i) ''error'' \<noteq> None
                  \<longleftrightarrow> isl (own_call url a w rows i)
                      \<or> (\<exists>p. own_call url a w rows i = Inr p \<and> \<not> is_object p))
             \<and> (\<forall>ex. own_call url a w rows i = Inl ex \<longrightarrow>
                    field (out ! i) ''response'' = Some (JStr (''Error: '' @ exn_str ex))
                  \<and> field (out ! i) ''error'' = Some (JStr (exn_str ex)))
             \<and> (\<forall>p. own_call url a w rows i = Inr p \<and> \<not> is_object p \<longrightarrow>
                    (\<exists>ex. py_get p ''response'' (JStr ''No response'') = Inl ex
                       \<and> field (out ! i) ''response'' = Some (JStr (''Error: '' @ exn_str ex))
                       \<and> field (out ! i) ''error'' = Some (JStr (exn_str ex))))
             \<and> (\<forall>payload. own_call url a w rows i = Inr (JObj payload) \<longrightarrow>
                    field (out ! i) ''response''
                      = Some (case map_of payload ''response'' of
                                None \<Rightarrow> JStr ''No response'' | Some v \<Rightarrow> v)))"
proof -
  from collect_run_own_call [OF assms(1,2,3), of a]
  obtain w' out where run:
      "collect_ai_responses path url a w
         = (Inr (str_replace path ''.jsonl'' ''_with_responses.jsonl''), w')"
      "files w' (str_replace path ''.jsonl'' ''_with_responses.jsonl'') = Some out"
      "length out = length rows"
    and each: "\<forall>i<length rows. \<exists>d. rows ! i = JObj d
              \<and> out ! i = JObj (outcome_record d (own_call url a w rows i)
                                 (utcnow w (clock_reads w + i)))"
    by blast
  have "field (out ! i) ''response'' \<noteq> None
      \<and> (field (out ! i) ''error'' \<noteq> None
           \<longleftrightarrow> isl (own_call url a w rows i)
               \<or> (\<exists>p. own_call url a w rows i = Inr p \<and> \<not> is_object p))
      \<and> (\<forall>ex. own_call url a w rows i = Inl ex \<longrightarrow>
             field (out ! i) ''response'' = Some (JStr (''Error: '' @ exn_str ex))
           \<and> field (out ! i) ''error'' = Some (JStr (exn_str ex)))
      \<and> (\<forall>p. own_call url a w rows i = Inr p \<and> \<not> is_object p \<longrightarrow>
             (\<exists>ex. py_get p ''response'' (JStr ''No response'') = Inl ex
                \<and> field (out ! i) ''response'' = Some (JStr (''Error: '' @ exn_str ex))
                \<and> field (out ! i) ''error'' = Some (JStr (exn_str ex))))
      \<and> (\<forall>payload. own_call url a w rows i = Inr (JObj payload) \<longrightarrow>
             field (out ! i) ''response''
               = Some (case map_of payload ''response'' of
                         None \<Rightarrow> JStr ''No response'' | Some v \<Rightarrow> v))"
    if i: "i < length rows" for i
  proof -
    from each i obtain d where d: "rows ! i = JObj d"
      and o: "out ! i = JObj (outcome_record d (own_call url a w rows i)
                                 (utcnow w (clock_reads w + i)))"
      by blast
    from assms(4) i have "field (rows ! i) ''error'' = None"
      by simp
    with d have noerr: "map_of d ''error'' = None"
      by (simp add: field_def)
    show ?thesis
    proof (cases "own_call url a w rows i")
      case (Inl ex)
      then show ?thesis
        unfolding o by (simp add: field_outcome_record_failed map_of_error_scenario)
    next
      case (Inr p)
      show ?thesis
      proof (cases "is_object p")
        case True
        then obtain payload where "p = JObj payload"
          using is_object_cases(1) by blast
        with Inr noerr show ?thesis
          unfolding o
          by (simp add: field_outcome_record_object map_of_enriched_scenario is_object_def)
      next
        case False
        then obtain ex where ex: "py_get p ''response'' (JStr ''No response'') = Inl ex"
          using is_object_cases(2) by blast
        have notobj: "p \<noteq> JObj payload" for payload
          using False by (auto simp: is_object_def)
        from Inr False ex notobj show ?thesis
          unfolding o
          by (simp add: field_outcome_record_no_object [OF ex] map_of_error_scenario)
      qed
    qed
  qed
  with run show ?thesis by blast
qed

theorem collect_error_exactly_on_failure_witness:
  "\<exists>w' out.
     collect_ai_responses ''portfolio_test_dataset.jsonl'' ''http://localhost:5000'' 1
         (demo_world faulty_network)
       = (Inr ''portfolio_test_dataset_with_responses.jsonl'', w')
     \<and> files w' ''portfolio_test_dataset_with_responses.jsonl'' = Some out
     \<and> length out = 3
     \<and> field (out ! 0) ''error'' = None
     \<and> field (out ! 0) ''response'' = Some (JStr ''All good'')
     \<and> field (out ! 1) ''error'' = Some (JStr ''API Error 500: Internal Server Error'')
     \<and> field (out ! 1) ''response'' = Some (JStr ''Error: API Error 500: Internal Server Error'')
     \<and> field (out ! 2) ''error'' = None
     \<and> field (out ! 2) ''response'' = Some (JStr ''All good'')"
proof -
  from collect_error_exactly_on_failure
         [OF demo_files demo_healthy(2) demo_rows_fields(1) demo_rows_fields(2), of 1]
  obtain w' out where run:
     "collect_ai_responses ''portfolio_test_dataset.jsonl'' ''http://localhost:5000'' 1
         (demo_world faulty_network) = (Inr ''portfolio_test_dataset_with_responses.jsonl'', w')"
     "files w' ''portfolio_test_dataset_with_responses.jsonl'' = Some out"
     "length out = 3"
    and each: "\<forall>i<3.
               (field (out ! i) ''error'' \<noteq> None
                  \<longleftrightarrow> isl (own_call ''http://localhost:5000'' 1 (demo_world faulty_network)
                              demo_rows i)
                      \<or> (\<exists>p. own_call ''http://localhost:5000'' 1 (demo_world faulty_network)
                              demo_rows i = Inr p \<and> \<not> is_object p))
             \<and> (\<forall>ex. own_call ''http://localhost:5000'' 1 (demo_world faulty_network)
                         demo_rows i = Inl ex \<longrightarrow>
                    field (out ! i) ''response'' = Some (JStr (''Error: '' @ exn_str ex))
                  \<and> field (out ! i) ''error'' = Some (JStr (exn_str ex)))
             \<and> (\<forall>payload. own_call ''http://localhost:5000'' 1 (demo_world faulty_network)
                         demo_rows i = Inr (JObj payload) \<longrightarrow>
                    field (out ! i) ''response''
                      = Some (case map_of payload ''response'' of
                                None \<Rightarrow> JStr ''No response'' | Some v \<Rightarrow> v))"
    unfolding demo_enriched_path demo_length by blast
  note e0 = each [rule_format, of 0] and e1 = each [rule_format, of 1]
    and e2 = each [rule_format, of 2]
  show ?thesis
    using run e0 e1 e2 by (simp add: own_call_faulty is_object_def)
qed

text \<open>
  C4 as stated fails: in the same run the call for the second scenario succeeds, with the
  payload \<^verbatim>\<open>None\<close>, and the response written for it is neither a field of the payload
  nor \<^verbatim>\<open>No response\<close> but the text of the error raised by \<^verbatim>\<open>.get\<close>.
\<close>

theorem null_payload_response_is_error_text:
  "own_call ''http://localhost:5000'' 1 (demo_world null_network) demo_rows 1 = Inr JNull
   \<and> field (enriched_rows
            (collect_ai_responses ''portfolio_test_dataset.jsonl'' ''http://localhost:5000'' 1
               (demo_world null_network)) ! 1) ''response''
       = Some (JStr (''Error: '' @ quoted ''NoneType'' @ '' object has no attribute ''
                     @ quoted ''get''))
   \<and> field (enriched_rows
            (collect_ai_responses ''portfolio_test_dataset.jsonl'' ''http://localhost:5000'' 1
               (demo_world null_network)) ! 1) ''response''
       \<noteq> Some (JStr ''No response'')"
  by (simp add: own_call_null demo_run_null field_def map_of_error_scenario quoted_def)

text \<open>
  C4, as the code has it. In a run over scenarios, a record whose own call succeeded with
  a JSON object as payload has as \<^verbatim>\<open>response\<close> the \<^verbatim>\<open>response\<close> field of that
  payload, or the text \<^verbatim>\<open>No response\<close> when the payload has no such field, and it
  has an \<^verbatim>\<open>error\<close> only if the row already had one. A record whose own call succeeded
  with a payload that is not an object has as \<^verbatim>\<open>response\<close> the text of the error
  raised by \<^verbatim>\<open>.get\<close>, after \<^verbatim>\<open>Error: \<close>. In either case, as for every record,
  \<^verbatim>\<open>tool_calls\<close> is the empty list. The example is the run over three scenarios
  against the service that always answers \<^verbatim>\<open>{"response": "All good"}\<close>.
\<close>

theorem collect_success_record:
  assumes "files w path = Some rows"
    and "healthy url w"
    and "\<forall>row\<in>set rows. field row ''scenario_type'' \<noteq> None \<and> field row ''query'' \<noteq> None"
  shows "\<exists>w' out.
           collect_ai_responses path url a w
             = (Inr (str_replace path ''.jsonl'' ''_with_responses.jsonl''), w')
         \<and> files w' (str_replace path ''.jsonl'' ''_with_responses.jsonl'') = Some out
         \<and> length out = length rows
         \<and> (\<forall>i<length rows.
               field (out ! i) ''tool_calls'' = Some (JList [])
             \<and> (\<forall>payload. own_call url a w rows i = Inr (JObj payload) \<longrightarrow>
                    field (out ! i) ''response''
                      = Some (case map_of payload ''response'' of
                                None \<Rightarrow> JStr ''No response'' | Some v \<Rightarrow> v)
                  \<and> field (out ! i) ''error'' = field (rows ! i) ''error'')
             \<and> (\<forall>p. own_call url a w rows i = Inr p \<and> \<not> is_object p \<longrightarrow>
                    (\<exists>ex. py_get p ''response'' (JStr ''No response'') = Inl ex
                       \<and> field (out ! i) ''response'' = Some (JStr (''Error: '' @ exn_str ex))
                       \<and> field (out ! i) ''error'' = Some (JStr (exn_str ex)))))"
proof -
  from collect_run_own_call [OF assms, of a]
  obtain w' out where run:
      "collect_ai_responses path url a w
         = (Inr (str_replace path ''.jsonl'' ''_with_responses.jsonl''), w')"
      "files w' (str_replace path ''.jsonl'' ''_with_responses.jsonl'') = Some out"
      "length out = length rows"
    and each: "\<forall>i<length rows. \<exists>d. rows ! i = JObj d
              \<and> out ! i = JObj (outcome_record d (own_call url a w rows i)
                                 (utcnow w (clock_reads w + i)))"
    by blast
  have "field (out ! i) ''tool_calls'' = Some (JList [])
      \<and> (\<forall>payload. own_call url a w rows i = Inr (JObj payload) \<longrightarrow>
             field (out ! i) ''response''
               = Some (case map_of payload ''response'' of
                         None \<Rightarrow> JStr ''No response'' | Some v \<Rightarrow> v)
           \<and> field (out ! i) ''error'' = field (rows ! i) ''error'')
      \<and> (\<forall>p. own_call url a w rows i = Inr p \<and> \<not> is_object p \<longrightarrow>
             (\<exists>ex. py_get p ''response'' (JStr ''No response'') = Inl ex
                \<and> field (out ! i) ''response'' = Some (JStr (''Error: '' @ exn_str ex))
                \<and> field (out ! i) ''error'' = Some (JStr (exn_str ex))))"
    if i: "i < length rows" for i
  proof -
    from each i obtain d where d: "rows ! i = JObj d"
      and o: "out ! i = JObj (outcome_record d (own_call url a w rows i)
                                 (utcnow w (clock_reads w + i)))"
      by blast
    have tools: "field (out ! i) ''tool_calls'' = Some (JList [])"
      unfolding o by (simp add: field_def map_of_outcome_record_always)
    have obj: "field (out ! i) ''response''
               = Some (case map_of payload ''response'' of
                         None \<Rightarrow> JStr ''No response'' | Some v \<Rightarrow> v)
           \<and> field (out ! i) ''error'' = field (rows ! i) ''error''"
      if "own_call url a w rows i = Inr (JObj payload)" for payload
    proof -
      have "field (JObj d) ''error'' = map_of d ''error''"
        by (simp add: field_def)
      then show ?thesis
        unfolding o that d
        by (simp add: field_outcome_record_object map_of_enriched_scenario)
    qed
    have noobj: "\<exists>ex. py_get p ''response'' (JStr ''No response'') = Inl ex
                \<and> field (out ! i) ''response'' = Some (JStr (''Error: '' @ exn_str ex))
                \<and> field (out ! i) ''error'' = Some (JStr (exn_str ex))"
      if "own_call url a w rows i = Inr p" "\<not> is_object p" for p
    proof -
      from that(2) obtain ex where ex: "py_get p ''response'' (JStr ''No response'') = Inl ex"
        using is_object_cases(2) by blast
      then show ?thesis
        unfolding o that(1)
        by (simp add: field_outcome_record_no_object [OF ex] map_of_error_scenario)
    qed
    from tools obj noobj show ?thesis by blast
  qed
  with run show ?thesis by blast
qed

theorem collect_success_record_witness:
  "\<exists>w' out.
     collect_ai_responses ''portfolio_test_dataset.jsonl'' ''http://localhost:5000'' 1
         (demo_world mock_network)
       = (Inr ''portfolio_test_dataset_with_responses.jsonl'', w')
     \<and> files w' ''portfolio_test_dataset_with_responses.jsonl'' = Some out
     \<and> length out = 3
     \<and> field (out ! 0) ''response'' = Some (JStr ''All good'')
     \<and> field (out ! 0) ''error'' = None
     \<and> field (out ! 0) ''tool_calls'' = Some (JList [])
     \<and> field (out ! 1) ''response'' = Some (JStr ''All good'')
     \<and> field (out ! 1) ''error'' = None
     \<and> field (out ! 1) ''tool_calls'' = Some (JList [])
     \<and> field (out ! 2) ''response'' = Some (JStr ''All good'')
     \<and> field (out ! 2) ''error'' = None
     \<and> field (out ! 2) ''tool_calls'' = Some (JList [])"
proof -
  from collect_success_record [OF demo_files demo_healthy(1) demo_rows_fields(1), of 1]
  obtain w' out where run:
     "collect_ai_responses ''portfolio_test_dataset.jsonl'' ''http://localhost:5000'' 1
         (demo_world mock_network) = (Inr ''portfolio_test_dataset_with_responses.jsonl'', w')"
     "files w' ''portfolio_test_dataset_with_responses.jsonl'' = Some out"
     "length out = 3"
    and each: "\<forall>i<3.
               field (out ! i) ''tool_calls'' = Some (JList [])
             \<and> (\<forall>payload.
                 own_call ''http://localhost:5000'' 1 (demo_world mock_network) demo_rows i
                   = Inr (JObj payload) \<longrightarrow>
                 field (out ! i) ''response''
                   = Some (case map_of payload ''response'' of
                             None \<Rightarrow> JStr ''No response'' | Some v \<Rightarrow> v)
               \<and> field (out ! i) ''error'' = field (demo_rows ! i) ''error'')"
    unfolding demo_enriched_path demo_length by blast
  note e0 = each [rule_format, of 0] and e1 = each [rule_format, of 1]
    and e2 = each [rule_format, of 2]
  show ?thesis
    using run e0 e1 e2 by (simp add: own_call_mock demo_rows_nth_error)
qed

text \<open>
  C7 as stated fails: in the run over three scenarios in which the call for the second
  one is answered with a 500, the second record of the enriched file has an
  \<^verbatim>\<open>error\<close> and no \<^verbatim>\<open>api_response_full\<close>.
\<close>

theorem failed_record_has_no_payload:
  "field (enriched_rows
            (collect_ai_responses ''portfolio_test_dataset.jsonl'' ''http://localhost:5000'' 1
               (demo_world faulty_network)) ! 1) ''api_response_full'' = None
   \<and> field (enriched_rows
            (collect_ai_responses ''portfolio_test_dataset.jsonl'' ''http://localhost:5000'' 1
               (demo_world faulty_network)) ! 1) ''error''
       = Some (JStr ''API Error 500: Internal Server Error'')"
  by (simp add: demo_run_faulty field_def map_of_error_scenario)

text \<open>
  C7, as the code has it. In a run over scenarios that have no \<^verbatim>\<open>api_response_full\<close>
  field of their own, every record carries \<^verbatim>\<open>response\<close>, \<^verbatim>\<open>tool_calls\<close> (the
  empty list) and \<^verbatim>\<open>timestamp\<close> (the reading of the clock for that record). A record
  whose own call returned a JSON object carries that payload as
  \<^verbatim>\<open>api_response_full\<close>. A record whose own call failed, or returned a payload that
  is not a JSON object, carries the \<^verbatim>\<open>error\<close> and no \<^verbatim>\<open>api_response_full\<close>.
  These are all the cases.
\<close>

theorem collect_record_fields:
  assumes "files w path = Some rows"
    and "healthy url w"
    and "\<forall>row\<in>set rows. field row ''scenario_type'' \<noteq> None \<and> field row ''query'' \<noteq> None"
    and "\<forall>row\<in>set rows. field row ''api_response_full'' = None"
  shows "\<exists>w' out.
           collect_ai_responses path url a w
             = (Inr (str_replace path ''.jsonl'' ''_with_responses.jsonl''), w')
         \<and> files w' (str_replace path ''.jsonl'' ''_with_responses.jsonl'') = Some out
         \<and> length out = length rows
         \<and> (\<forall>i<length rows.
               field (out ! i) ''response'' \<noteq> None
             \<and> field (out ! i) ''tool_calls'' = Some (JList [])
             \<and> field (out ! i) ''timestamp'' = Some (JStr (utcnow w (clock_reads w + i)))
             \<and> (\<forall>payload. own_call url a w rows i = Inr (JObj payload) \<longrightarrow>
                    field (out ! i) ''api_response_full'' = Some (JObj payload))
             \<and> (\<forall>ex. own_call url a w rows i = Inl ex \<longrightarrow>
                    field (out ! i) ''error'' = Some (JStr (exn_str ex))
                  \<and> field (out ! i) ''api_response_full'' = None)
             \<and> (\<forall>p. own_call url a w rows i = Inr p \<and> \<not> is_object p \<longrightarrow>
                    field (out ! i) ''error'' \<noteq> None
                  \<and> field (out ! i) ''api_response_full'' = None)
             \<and> (field (out ! i) ''api_response_full'' \<noteq> None
                  \<longleftrightarrow> (\<exists>payload. own_call url a w rows i = Inr (JObj payload))))"
proof -
  from collect_run_own_call [OF assms(1,2,3), of a]
  obtain w' out where run:
      "collect_ai_responses path url a w
         = (Inr (str_replace path ''.jsonl'' ''_with_responses.jsonl''), w')"
      "files w' (str_replace path ''.jsonl'' ''_with_responses.jsonl'') = Some out"
      "length out = length rows"
    and each: "\<forall>i<length rows. \<exists>d. rows ! i = JObj d
              \<and> out ! i = JObj (outcome_record d (own_call url a w rows i)
                                 (utcnow w (clock_reads w + i)))"
    by blast
  have "field (out ! i) ''response'' \<noteq> None
      \<and> field (out ! i) ''tool_calls'' = Some (JList [])
      \<and> field (out ! i) ''timestamp'' = Some (JStr (utcnow w (clock_reads w + i)))
      \<and> (\<forall>payload. own_call url a w rows i = Inr (JObj payload) \<longrightarrow>
             field (out ! i) ''api_response_full'' = Some (JObj payload))
      \<and> (\<forall>ex. own_call url a w rows i = Inl ex \<longrightarrow>
             field (out ! i) ''error'' = Some (JStr (exn_str ex))
           \<and> field (out ! i) ''api_response_full'' = None)
      \<and> (\<forall>p. own_call url a w rows i = Inr p \<and> \<not> is_object p \<longrightarrow>
             field (out ! i) ''error'' \<noteq> None
           \<and> field (out ! i) ''api_response_full'' = None)
      \<and> (field (out ! i) ''api_response_full'' \<noteq> None
           \<longleftrightarrow> (\<exists>payload. own_call url a w rows i = Inr (JObj payload)))"
    if i: "i < length rows" for i
  proof -
    from each i obtain d where d: "rows ! i = JObj d"
      and o: "out ! i = JObj (outcome_record d (own_call url a w rows i)
                                 (utcnow w (clock_reads w + i)))"
      by blast
    from assms(4) i have "field (rows ! i) ''api_response_full'' = None"
      by simp
    with d have nopayload: "map_of d ''api_response_full'' = None"
      by (simp add: field_def)
    have always:
      "field (out ! i) ''response'' \<noteq> None"
      "field (out ! i) ''tool_calls'' = Some (JList [])"
      "field (out ! i) ''timestamp'' = Some (JStr (utcnow w (clock_reads w + i)))"
      unfolding o by (simp_all add: field_def map_of_outcome_record_always)
    have obj: "field (out ! i) ''api_response_full'' = Some (JObj payload)"
      if "own_call url a w rows i = Inr (JObj payload)" for payload
      unfolding o that by (simp add: field_outcome_record_object map_of_enriched_scenario)
    have failed: "field (out ! i) ''error'' = Some (JStr (exn_str ex))
           \<and> field (out ! i) ''api_response_full'' = None"
      if "own_call url a w rows i = Inl ex" for ex
      unfolding o that using nopayload
      by (simp add: field_outcome_record_failed map_of_error_scenario)
    have noobj: "field (out ! i) ''error'' \<noteq> None
           \<and> field (out ! i) ''api_response_full'' = None"
      if "own_call url a w rows i = Inr p" "\<not> is_object p" for p
    proof -
      from that(2) obtain ex where ex: "py_get p ''response'' (JStr ''No response'') = Inl ex"
        using is_object_cases(2) by blast
      show ?thesis
        unfolding o that(1) using nopayload
        by (simp add: field_outcome_record_no_object [OF ex] map_of_error_scenario)
    qed
    have "field (out ! i) ''api_response_full'' \<noteq> None
           \<longleftrightarrow> (\<exists>payload. own_call url a w rows i = Inr (JObj payload))"
    proof (cases "own_call url a w rows i")
      case (Inl ex)
      with failed show ?thesis by simp
    next
      case (Inr p)
      show ?thesis
      proof (cases "is_object p")
        case True
        then obtain payload where "p = JObj payload"
          using is_object_cases(1) by blast
        with Inr obj show ?thesis by simp
      next
        case False
        then have "p \<noteq> JObj payload" for payload
          by (auto simp: is_object_def)
        with Inr False noobj show ?thesis by simp
      qed
    qed
    with always obj failed noobj show ?thesis by blast
  qed
  with run show ?thesis by blast
qed

theorem collect_record_fields_witness:
  "\<exists>w' out.
     collect_ai_responses ''portfolio_test_dataset.jsonl'' ''http://localhost:5000'' 1
         (demo_world faulty_network)
       = (Inr ''portfolio_test_dataset_with_responses.jsonl'', w')
     \<and> files w' ''portfolio_test_dataset_with_responses.jsonl'' = Some out
     \<and> length out = 3
     \<and> field (out ! 0) ''api_response_full'' = Some (JObj [(''response'', JStr ''All good'')])
     \<and> field (out ! 0) ''timestamp'' = Some (JStr ''2025-11-18T10:00:00.000000'')
     \<and> field (out ! 1) ''api_response_full'' = None
     \<and> field (out ! 1) ''timestamp'' = Some (JStr ''2025-11-18T10:00:00.000001'')
     \<and> field (out ! 1) ''tool_calls'' = Some (JList [])
     \<and> field (out ! 2) ''api_response_full'' = Some (JObj [(''response'', JStr ''All good'')])
     \<and> field (out ! 2) ''timestamp'' = Some (JStr ''2025-11-18T10:00:00.000002'')"
proof -
  from collect_record_fields
         [OF demo_files demo_healthy(2) demo_rows_fields(1) demo_rows_fields(3), of 1]
  obtain w' out where run:
     "collect_ai_responses ''portfolio_test_dataset.jsonl'' ''http://localhost:5000'' 1
         (demo_world faulty_network) = (Inr ''portfolio_test_dataset_with_responses.jsonl'', w')"
     "files w' ''portfolio_test_dataset_with_responses.jsonl'' = Some out"
     "length out = 3"
    and each: "\<forall>i<3.
               field (out ! i) ''tool_calls'' = Some (JList [])
             \<and> field (out ! i) ''timestamp''
                 = Some (JStr (utcnow (demo_world faulty_network)
                                 (clock_reads (demo_world faulty_network) + i)))
             \<and> (\<forall>payload. own_call ''http://localhost:5000'' 1 (demo_world faulty_network)
                              demo_rows i = Inr (JObj payload) \<longrightarrow>
                    field (out ! i) ''api_response_full'' = Some (JObj payload))
             \<and> (\<forall>ex. own_call ''http://localhost:5000'' 1 (demo_world faulty_network)
                         demo_rows i = Inl ex \<longrightarrow>
                    field (out ! i) ''error'' = Some (JStr (exn_str ex))
                  \<and> field (out ! i) ''api_response_full'' = None)"
    unfolding demo_enriched_path demo_length by blast
  note e0 = each [rule_format, of 0] and e1 = each [rule_format, of 1]
    and e2 = each [rule_format, of 2]
  show ?thesis
    using run e0 e1 e2 by (simp add: own_call_faulty demo_world_simps demo_clock_simps)
qed

section \<open>The dataset builder\<close>

subsection \<open>The rows that are written\<close>

lemma make_row_scenario:
  assumes "is_scenario s"
  shows "make_row tds i s =
     Inr ([(''query'', the (map_of s ''query'')),
           (''tool_definitions'', tds),
           (''scenario_id'', JStr (''test_'' @ fmt_02d (Suc i))),
           (''scenario_type'', the (map_of s ''scenario_type'')),
           (''expected_tool'', the (map_of s ''expected_tool'')),
           (''expected_params'', the (map_of s ''expected_params''))]
          @ (case map_of s ''note'' of None \<Rightarrow> [] | Some note \<Rightarrow> [(''notes'', note)]))"
  using assms
  by (auto simp: is_scenario_def make_row_def subscript_def dict_set_def split: option.splits)

lemma write_scenarios_rows:
  assumes "\<forall>s\<in>set scenarios. is_scenario s" and "files w path = Some ls"
  shows "\<exists>w' rows. write_scenarios tds path i scenarios w = (None, w')
           \<and> files w' path = Some (ls @ map JObj rows)
           \<and> length rows = length scenarios
           \<and> (\<forall>j<length scenarios. make_row tds (i + j) (scenarios ! j) = Inr (rows ! j))"
  using assms
proof (induction scenarios arbitrary: i w ls)
  case Nil
  then show ?case by simp
next
  case (Cons s scenarios)
  from Cons.prems(1) have s: "is_scenario s" by simp
  then obtain row where row: "make_row tds i s = Inr row"
    by (simp add: make_row_scenario)
  define w1 where "w1 = writer_write path (JObj row) w"
  have f1: "files w1 path = Some (ls @ [JObj row])"
    using Cons.prems(2) by (simp add: w1_def writer_write_def)
  from Cons.prems(1) have "\<forall>s\<in>set scenarios. is_scenario s" by simp
  from Cons.IH [OF this f1, of "Suc i"]
  obtain w' rows where rest:
    "write_scenarios tds path (Suc i) scenarios w1 = (None, w')"
    "files w' path = Some ((ls @ [JObj row]) @ map JObj rows)"
    "length rows = length scenarios"
    "\<forall>j<length scenarios. make_row tds (Suc i + j) (scenarios ! j) = Inr (rows ! j)"
    by blast
  have "make_row tds (i + j) ((s # scenarios) ! j) = Inr ((row # rows) ! j)"
    if "j < length (s # scenarios)" for j
  proof (cases j)
    case 0
    then show ?thesis by (simp add: row)
  next
    case (Suc k)
    with that rest(4) show ?thesis by simp
  qed
  with rest(1,2,3) row show ?case
    by (intro exI [of _ w'] exI [of _ "row # rows"]) (simp add: w1_def)
qed

text \<open>
  Over scenarios that have their four keys the builder never raises, and the file holds
  one row per scenario, in order, each of the shape that \<^verbatim>\<open>make_row\<close> gives.
\<close>

lemma build_dataset_rows:
  assumes "\<forall>s\<in>set scenarios. is_scenario s"
  shows "\<exists>w' rows. build_dataset tds scenarios path w = (Inr path, w')
           \<and> files w' path = Some (map JObj rows)
           \<and> length rows = length scenarios
           \<and> (\<forall>j<length scenarios. rows ! j =
                 [(''query'', the (map_of (scenarios ! j) ''query'')),
                  (''tool_definitions'', tds),
                  (''scenario_id'', JStr (''test_'' @ fmt_02d (Suc j))),
                  (''scenario_type'', the (map_of (scenarios ! j) ''scenario_type'')),
                  (''expected_tool'', the (map_of (scenarios ! j) ''expected_tool'')),
                  (''expected_params'', the (map_of (scenarios ! j) ''expected_params''))]
                 @ (case map_of (scenarios ! j) ''note'' of
                      None \<Rightarrow> [] | Some note \<Rightarrow> [(''notes'', note)]))"
proof -
  have "files (open_write path w) path = Some []"
    by (simp add: open_write_def)
  from write_scenarios_rows [OF assms this, of tds 0]
  obtain w' rows where run: "write_scenarios tds path 0 scenarios (open_write path w) = (None, w')"
      "files w' path = Some (map JObj rows)" "length rows = length scenarios"
    and each: "\<forall>j<length scenarios. make_row tds j (scenarios ! j) = Inr (rows ! j)"
    by auto
  have "rows ! j =
          [(''query'', the (map_of (scenarios ! j) ''query'')),
           (''tool_definitions'', tds),
           (''scenario_id'', JStr (''test_'' @ fmt_02d (Suc j))),
           (''scenario_type'', the (map_of (scenarios ! j) ''scenario_type'')),
           (''expected_tool'', the (map_of (scenarios ! j) ''expected_tool'')),
           (''expected_params'', the (map_of (scenarios ! j) ''expected_params''))]
          @ (case map_of (scenarios ! j) ''note'' of
               None \<Rightarrow> [] | Some note \<Rightarrow> [(''notes'', note)])"
    if j: "j < length scenarios" for j
  proof -
    from assms j have s: "is_scenario (scenarios ! j)" by simp
    from each j have "Inr (rows ! j) = make_row tds j (scenarios ! j)" by simp
    then show ?thesis
      unfolding make_row_scenario [OF s] by simp
  qed
  with run show ?thesis
    by (auto simp: build_dataset_def)
qed

lemma test_scenarios_ok: "\<forall>s\<in>set test_scenarios. is_scenario s"
  by (simp add: test_scenarios_def is_scenario_def)

lemma length_test_scenarios: "length test_scenarios = 11"
  by (simp add: test_scenarios_def)

text \<open>
  C8. Over scenarios that have their four keys, the builder writes one object per
  scenario, in the order of the scenarios. The keys of the j-th object are exactly
  \<^verbatim>\<open>query\<close>, \<^verbatim>\<open>tool_definitions\<close>, \<^verbatim>\<open>scenario_id\<close>, \<^verbatim>\<open>scenario_type\<close>,
  \<^verbatim>\<open>expected_tool\<close>, \<^verbatim>\<open>expected_params\<close>, followed by \<^verbatim>\<open>notes\<close> if and only if
  the j-th scenario has a \<^verbatim>\<open>note\<close>. The values are those of the scenario, the whole
  list of tool definitions (the same on every line), the id numbered from the position,
  and the note of the scenario under \<^verbatim>\<open>notes\<close>.
\<close>

theorem dataset_rows_flatten:
  assumes "\<forall>s\<in>set scenarios. is_scenario s"
  shows "\<exists>w' out.
           build_dataset tds scenarios path w = (Inr path, w')
         \<and> files w' path = Some (map JObj out)
         \<and> length out = length scenarios
         \<and> (\<forall>j<length scenarios.
               dict_keys (out ! j) =
                 [''query'', ''tool_definitions'', ''scenario_id'', ''scenario_type'',
                  ''expected_tool'', ''expected_params'']
                 @ (if map_of (scenarios ! j) ''note'' = None then [] else [''notes''])
             \<and> map_of (out ! j) ''query'' = map_of (scenarios ! j) ''query''
             \<and> map_of (out ! j) ''tool_definitions'' = Some tds
             \<and> map_of (out ! j) ''scenario_id'' = Some (JStr (''test_'' @ fmt_02d (j + 1)))
             \<and> map_of (out ! j) ''scenario_type'' = map_of (scenarios ! j) ''scenario_type''
             \<and> map_of (out ! j) ''expected_tool'' = map_of (scenarios ! j) ''expected_tool''
             \<and> map_of (out ! j) ''expected_params'' = map_of (scenarios ! j) ''expected_params''
             \<and> map_of (out ! j) ''notes'' = map_of (scenarios ! j) ''note'')"
proof -
  from build_dataset_rows [OF assms, of tds path w]
  obtain w' rows where run: "build_dataset tds scenarios path w = (Inr path, w')"
      "files w' path = Some (map JObj rows)" "length rows = length scenarios"
    and each: "\<forall>j<length scenarios. rows ! j =
                 [(''query'', the (map_of (scenarios ! j) ''query'')),
                  (''tool_definitions'', tds),
                  (''scenario_id'', JStr (''test_'' @ fmt_02d (Suc j))),
                  (''scenario_type'', the (map_of (scenarios ! j) ''scenario_type'')),
                  (''expected_tool'', the (map_of (scenarios ! j) ''expected_tool'')),
                  (''expected_params'', the (map_of (scenarios ! j) ''expected_params''))]
                 @ (case map_of (scenarios ! j) ''note'' of
                      None \<Rightarrow> [] | Some note \<Rightarrow> [(''notes'', note)])"
    by blast
  have "dict_keys (rows ! j) =
                 [''query'', ''tool_definitions'', ''scenario_id'', ''scenario_type'',
                  ''expected_tool'', ''expected_params'']
                 @ (if map_of (scenarios ! j) ''note'' = None then [] else [''notes''])
             \<and> map_of (rows ! j) ''query'' = map_of (scenarios ! j) ''query''
             \<and> map_of (rows ! j) ''tool_definitions'' = Some tds
             \<and> map_of (rows ! j) ''scenario_id'' = Some (JStr (''test_'' @ fmt_02d (j + 1)))
             \<and> map_of (rows ! j) ''scenario_type'' = map_of (scenarios ! j) ''scenario_type''
             \<and> map_of (rows ! j) ''expected_tool'' = map_of (scenarios ! j) ''expected_tool''
             \<and> map_of (rows ! j) ''expected_params'' = map_of (scenarios ! j) ''expected_params''
             \<and> map_of (rows ! j) ''notes'' = map_of (scenarios ! j) ''note''"
    if j: "j < length scenarios" for j
  proof -
    from assms j have s: "is_scenario (scenarios ! j)" by simp
    from each j have "rows ! j =
                 [(''query'', the (map_of (scenarios ! j) ''query'')),
                  (''tool_definitions'', tds),
                  (''scenario_id'', JStr (''test_'' @ fmt_02d (Suc j))),
                  (''scenario_type'', the (map_of (scenarios ! j) ''scenario_type'')),
                  (''expected_tool'', the (map_of (scenarios ! j) ''expected_tool'')),
                  (''expected_params'', the (map_of (scenarios ! j) ''expected_params''))]
                 @ (case map_of (scenarios ! j) ''note'' of
                      None \<Rightarrow> [] | Some note \<Rightarrow> [(''notes'', note)])"
      by simp
    then show ?thesis
      using s by (auto simp: is_scenario_def dict_keys_def split: option.splits)
  qed
  with run show ?thesis by blast
qed

theorem dataset_rows_flatten_witness:
  "\<exists>w' out.
     create_test_dataset ''portfolio_test_dataset.jsonl'' empty_world
       = (Inr ''portfolio_test_dataset.jsonl'', w')
   \<and> files w' ''portfolio_test_dataset.jsonl'' = Some (map JObj out)
   \<and> length out = 11
   \<and> dict_keys (out ! 6) =
        [''query'', ''tool_definitions'', ''scenario_id'', ''scenario_type'',
         ''expected_tool'', ''expected_params'']
   \<and> map_of (out ! 6) ''query'' = Some (JStr ''What's the market sentiment for Apple stock?'')
   \<and> map_of (out ! 6) ''tool_definitions'' = Some tool_definitions
   \<and> map_of (out ! 6) ''scenario_id'' = Some (JStr ''test_07'')
   \<and> map_of (out ! 6) ''expected_tool'' = Some (JStr ''MarketIntelligenceTool'')
   \<and> map_of (out ! 6) ''expected_params'' = Some (JObj [(''symbol'', JStr ''AAPL'')])
   \<and> map_of (out ! 6) ''notes'' = None
   \<and> dict_keys (out ! 9) =
        [''query'', ''tool_definitions'', ''scenario_id'', ''scenario_type'',
         ''expected_tool'', ''expected_params'', ''notes'']
   \<and> map_of (out ! 9) ''scenario_id'' = Some (JStr ''test_10'')
   \<and> map_of (out ! 9) ''notes''
       = Some (JStr ''Should trigger both PortfolioAnalysisTool and MarketIntelligenceTool'')"
proof -
  from dataset_rows_flatten [OF test_scenarios_ok,
         of tool_definitions "''portfolio_test_dataset.jsonl''" empty_world]
  obtain w' out where run:
      "create_test_dataset ''portfolio_test_dataset.jsonl'' empty_world
         = (Inr ''portfolio_test_dataset.jsonl'', w')"
      "files w' ''portfolio_test_dataset.jsonl'' = Some (map JObj out)"
      "length out = 11"
    and each: "\<forall>j<11.
               dict_keys (out ! j) =
                 [''query'', ''tool_definitions'', ''scenario_id'', ''scenario_type'',
                  ''expected_tool'', ''expected_params'']
                 @ (if map_of (test_scenarios ! j) ''note'' = None then [] else [''notes''])
             \<and> map_of (out ! j) ''query'' = map_of (test_scenarios ! j) ''query''
             \<and> map_of (out ! j) ''tool_definitions'' = Some tool_definitions
             \<and> map_of (out ! j) ''scenario_id'' = Some (JStr (''test_'' @ fmt_02d (j + 1)))
             \<and> map_of (out ! j) ''scenario_type'' = map_of (test_scenarios ! j) ''scenario_type''
             \<and> map_of (out ! j) ''expected_tool'' = map_of (test_scenarios ! j) ''expected_tool''
             \<and> map_of (out ! j) ''expected_params''
                 = map_of (test_scenarios ! j) ''expected_params''
             \<and> map_of (out ! j) ''notes'' = map_of (test_scenarios ! j) ''note''"
    unfolding create_test_dataset_def length_test_scenarios by blast
  have s6: "test_scenarios ! 6 =
     [(''query'', JStr ''What's the market sentiment for Apple stock?''),
      (''expected_tool'', JStr ''MarketIntelligenceTool''),
      (''expected_params'', JObj [(''symbol'', JStr ''AAPL'')]),
      (''scenario_type'', JStr ''market_intelligence'')]"
    by (simp add: test_scenarios_def)
  have s9: "test_scenarios ! 9 =
     [(''query'', JStr ''What's my total portfolio value and how is MSFT doing in the market?''),
      (''expected_tool'', JStr ''PortfolioAnalysisTool''),
      (''expected_params'', JObj [(''valuationDate'', JStr ''today'')]),
      (''scenario_type'', JStr ''multi_intent''),
      (''note'', JStr ''Should trigger both PortfolioAnalysisTool and MarketIntelligenceTool'')]"
    by (simp add: test_scenarios_def)
  have ids: "fmt_02d (6 + 1) = ''07''" "fmt_02d (9 + 1) = ''10''"
    by (simp_all add: fmt_02d_def)
  note e6 = each [rule_format, of 6] and e9 = each [rule_format, of 9]
  show ?thesis
    using run e6 e9 unfolding s6 s9 ids
    by (intro exI [of _ w'] exI [of _ out]) simp
qed

subsection \<open>Expected tools\<close>

lemma tool_names_declared:
  "tool_names tool_definitions
     = [JStr ''PortfolioAnalysisTool'', JStr ''PortfolioComparisonTool'',
        JStr ''MarketIntelligenceTool'']"
  by (simp add: tool_names_def tool_definitions_def List.map_filter_def field_def)

lemma test_scenarios_tools:
  "\<forall>s\<in>set test_scenarios. \<exists>tool. map_of s ''expected_tool'' = Some tool
      \<and> tool \<in> set (tool_names tool_definitions)"
  unfolding tool_names_declared by (simp add: test_scenarios_def)

text \<open>
  C9. The dataset that \<^verbatim>\<open>create_test_dataset\<close> writes has eleven rows, and the
  \<^verbatim>\<open>expected_tool\<close> of every row is one of the names declared by the tool
  definitions that the same row carries.
\<close>

theorem expected_tools_declared:
  "\<exists>w' out.
     create_test_dataset path w = (Inr path, w')
   \<and> files w' path = Some (map JObj out)
   \<and> length out = 11
   \<and> (\<forall>row\<in>set out. \<exists>tool defs.
         map_of row ''expected_tool'' = Some tool
       \<and> map_of row ''tool_definitions'' = Some defs
       \<and> tool \<in> set (tool_names defs))"
proof -
  from build_dataset_rows [OF test_scenarios_ok, of tool_definitions path w]
  obtain w' out where run: "create_test_dataset path w = (Inr path, w')"
      "files w' path = Some (map JObj out)" "length out = 11"
    and each: "\<forall>j<11. out ! j =
                 [(''query'', the (map_of (test_scenarios ! j) ''query'')),
                  (''tool_definitions'', tool_definitions),
                  (''scenario_id'', JStr (''test_'' @ fmt_02d (Suc j))),
                  (''scenario_type'', the (map_of (test_scenarios ! j) ''scenario_type'')),
                  (''expected_tool'', the (map_of (test_scenarios ! j) ''expected_tool'')),
                  (''expected_params'', the (map_of (test_scenarios ! j) ''expected_params''))]
                 @ (case map_of (test_scenarios ! j) ''note'' of
                      None \<Rightarrow> [] | Some note \<Rightarrow> [(''notes'', note)])"
    unfolding create_test_dataset_def length_test_scenarios by blast
  have "\<exists>tool defs. map_of row ''expected_tool'' = Some tool
       \<and> map_of row ''tool_definitions'' = Some defs
       \<and> tool \<in> set (tool_names defs)" if "row \<in> set out" for row
  proof -
    from that run(3) obtain j where j: "j < 11" "row = out ! j"
      by (metis in_set_conv_nth)
    then have "test_scenarios ! j \<in> set test_scenarios"
      by (simp add: length_test_scenarios)
    with test_scenarios_tools obtain tool where
      "map_of (test_scenarios ! j) ''expected_tool'' = Some tool"
      "tool \<in> set (tool_names tool_definitions)"
      by blast
    moreover from each j have "map_of row ''expected_tool''
         = Some (the (map_of (test_scenarios ! j) ''expected_tool''))"
      "map_of row ''tool_definitions'' = Some tool_definitions"
      by simp_all
    ultimately show ?thesis by simp
  qed
  with run show ?thesis by blast
qed

theorem expected_tools_declared_witness:
  "\<exists>w' out.
     create_test_dataset ''portfolio_test_dataset.jsonl'' empty_world
       = (Inr ''portfolio_test_dataset.jsonl'', w')
   \<and> files w' ''portfolio_test_dataset.jsonl'' = Some (map JObj out)
   \<and> length out = 11
   \<and> (\<exists>tool defs.
         map_of (out ! 6) ''expected_tool'' = Some tool
       \<and> map_of (out ! 6) ''tool_definitions'' = Some defs
       \<and> tool \<in> set (tool_names defs))"
proof -
  from expected_tools_declared [of "''portfolio_test_dataset.jsonl''" empty_world]
  obtain w' out where run:
      "create_test_dataset ''portfolio_test_dataset.jsonl'' empty_world
         = (Inr ''portfolio_test_dataset.jsonl'', w')"
      "files w' ''portfolio_test_dataset.jsonl'' = Some (map JObj out)"
      "length out = 11"
    and each: "\<forall>row\<in>set out. \<exists>tool defs.
         map_of row ''expected_tool'' = Some tool
       \<and> map_of row ''tool_definitions'' = Some defs
       \<and> tool \<in> set (tool_names defs)"
    by blast
  from run(3) have "out ! 6 \<in> set out" by simp
  with each have "\<exists>tool defs.
         map_of (out ! 6) ''expected_tool'' = Some tool
       \<and> map_of (out ! 6) ''tool_definitions'' = Some defs
       \<and> tool \<in> set (tool_names defs)"
    by blast
  with run show ?thesis by blast
qed

subsection \<open>Scenario ids\<close>

declare str_nat.simps [simp del]

lemma digit_code:
  assumes "k < 10"
  shows "of_char (''0123456789'' ! k) = (48 + k :: nat)"
proof -
  from assms
  have "k = 0 \<or> k = 1 \<or> k = 2 \<or> k = 3 \<or> k = 4 \<or> k = 5 \<or> k = 6 \<or> k = 7 \<or> k = 8 \<or> k = 9"
    by arith
  then show ?thesis
    by (elim disjE) simp_all
qed

lemma digit_less:
  assumes "a < 10" "b < 10"
  shows "(''0123456789'' ! a) < (''0123456789'' ! b) \<longleftrightarrow> a < b"
  unfolding less_char_def digit_code [OF assms(1)] digit_code [OF assms(2)] by simp

lemma parse_nat_snoc: "parse_nat (s @ [c]) = 10 * parse_nat s + digit_value c"
  by (simp add: parse_nat_def)

text \<open>Printing a number and reading it back gives the number: printing is injective.\<close>

lemma parse_nat_str_nat: "parse_nat (str_nat n) = n"
proof (induction n rule: str_nat.induct)
  case (1 n)
  show ?case
  proof (cases "n < 10")
    case True
    then show ?thesis
      by (subst str_nat.simps) (simp add: parse_nat_def digit_value_def digit_code)
  next
    case False
    with 1 have "parse_nat (str_nat (n div 10)) = n div 10" by simp
    with False show ?thesis
      by (subst str_nat.simps) (simp add: parse_nat_snoc digit_value_def digit_code)
  qed
qed

lemma parse_nat_zeros: "parse_nat (replicate k CHR ''0'' @ s) = parse_nat s"
proof -
  have "foldl (\<lambda>a c. 10 * a + digit_value c) 0 (replicate k CHR ''0'') = 0"
    by (induction k) (simp_all add: digit_value_def)
  then show ?thesis by (simp add: parse_nat_def)
qed

lemma parse_nat_fmt_02d: "parse_nat (fmt_02d n) = n"
  by (simp add: fmt_02d_def Let_def parse_nat_zeros parse_nat_str_nat)

lemma fmt_02d_inj: "fmt_02d a = fmt_02d b \<Longrightarrow> a = b"
  by (metis parse_nat_fmt_02d)

text \<open>Below one hundred the format is the two digits of the number.\<close>

lemma fmt_02d_two_digits:
  assumes "n < 100"
  shows "fmt_02d n = [''0123456789'' ! (n div 10), ''0123456789'' ! (n mod 10)]"
proof (cases "n < 10")
  case True
  then have "str_nat n = [''0123456789'' ! n]"
    by (subst str_nat.simps) simp
  with True show ?thesis
    by (simp add: fmt_02d_def)
next
  case False
  with assms have "n div 10 < 10" by simp
  then have "str_nat (n div 10) = [''0123456789'' ! (n div 10)]"
    by (subst str_nat.simps) simp
  with False have "str_nat n = [''0123456789'' ! (n div 10), ''0123456789'' ! (n mod 10)]"
    by (subst str_nat.simps) simp
  then show ?thesis
    by (simp add: fmt_02d_def)
qed

lemma fmt_02d_less:
  assumes "a < b" "b < 100"
  shows "fmt_02d a < fmt_02d b"
proof -
  from assms have a: "a < 100" by simp
  have d: "a div 10 < 10" "b div 10 < 10" "a mod 10 < 10" "b mod 10 < 10"
    using assms by simp_all
  from assms(1) have "a div 10 < b div 10 \<or> (a div 10 = b div 10 \<and> a mod 10 < b mod 10)"
    by (metis div_le_mono less_imp_le_nat linorder_neqE_nat mod_div_decomp
          nat_add_left_cancel_less not_less)
  then show ?thesis
    unfolding fmt_02d_two_digits [OF a] fmt_02d_two_digits [OF assms(2)]
    using d by (auto simp: digit_less)
qed

lemma sorted_ids:
  assumes "n < 100"
  shows "sorted_wrt (<) (map (\<lambda>j. ''test_'' @ fmt_02d (Suc j)) [0..<n])"
proof -
  have "''test_'' @ fmt_02d (Suc i) < ''test_'' @ fmt_02d (Suc j)" if "i < j" "j < n" for i j
  proof -
    from that assms have "Suc i < Suc j" "Suc j < 100" by simp_all
    then have "fmt_02d (Suc i) < fmt_02d (Suc j)" by (rule fmt_02d_less)
    then show ?thesis by simp
  qed
  then show ?thesis
    by (simp add: sorted_wrt_iff_nth_less)
qed

lemma distinct_ids: "distinct (map (\<lambda>j. ''test_'' @ fmt_02d (Suc j)) [0..<n])"
  by (auto simp: distinct_map inj_on_def dest: fmt_02d_inj)

lemma test_ids:
  "map (\<lambda>j. ''test_'' @ fmt_02d (Suc j)) [0..<11]
     = [''test_01'', ''test_02'', ''test_03'', ''test_04'', ''test_05'', ''test_06'',
        ''test_07'', ''test_08'', ''test_09'', ''test_10'', ''test_11'']"
  by code_simp

text \<open>
  C10. Over scenarios that have their four keys, the \<^verbatim>\<open>scenario_id\<close> of the j-th
  row written (counting from 0) is \<^verbatim>\<open>test_\<close> followed by j + 1 in at least two
  digits, zero-padded. These ids are pairwise different whatever the number of
  scenarios, and for fewer than a hundred scenarios, so for the eleven of the catalogue,
  they increase strictly in file order as strings.
\<close>

theorem scenario_ids_sequential:
  assumes "\<forall>s\<in>set scenarios. is_scenario s"
  shows "\<exists>w' out ids.
           build_dataset tds scenarios path w = (Inr path, w')
         \<and> files w' path = Some (map JObj out)
         \<and> map (\<lambda>row. map_of row ''scenario_id'') out = map (\<lambda>s. Some (JStr s)) ids
         \<and> ids = map (\<lambda>j. ''test_'' @ fmt_02d (Suc j)) [0..<length scenarios]
         \<and> distinct ids
         \<and> (length scenarios < 100 \<longrightarrow> sorted_wrt (<) ids)"
proof -
  from build_dataset_rows [OF assms, of tds path w]
  obtain w' rows where run: "build_dataset tds scenarios path w = (Inr path, w')"
      "files w' path = Some (map JObj rows)" "length rows = length scenarios"
    and each: "\<forall>j<length scenarios. rows ! j =
                 [(''query'', the (map_of (scenarios ! j) ''query'')),
                  (''tool_definitions'', tds),
                  (''scenario_id'', JStr (''test_'' @ fmt_02d (Suc j))),
                  (''scenario_type'', the (map_of (scenarios ! j) ''scenario_type'')),
                  (''expected_tool'', the (map_of (scenarios ! j) ''expected_tool'')),
                  (''expected_params'', the (map_of (scenarios ! j) ''expected_params''))]
                 @ (case map_of (scenarios ! j) ''note'' of
                      None \<Rightarrow> [] | Some note \<Rightarrow> [(''notes'', note)])"
    by blast
  define ids where "ids = map (\<lambda>j. ''test_'' @ fmt_02d (Suc j)) [0..<length scenarios]"
  have "map_of (rows ! j) ''scenario_id'' = Some (JStr (ids ! j))"
    if j: "j < length scenarios" for j
    using each j by (simp add: ids_def)
  then have "map (\<lambda>row. map_of row ''scenario_id'') rows = map (\<lambda>s. Some (JStr s)) ids"
    using run(3) by (intro nth_equalityI) (simp_all add: ids_def)
  moreover have "distinct ids"
    unfolding ids_def by (rule distinct_ids)
  moreover have "length scenarios < 100 \<longrightarrow> sorted_wrt (<) ids"
    unfolding ids_def by (intro impI sorted_ids)
  ultimately show ?thesis
    using run(1,2) unfolding ids_def by auto
qed

theorem scenario_ids_sequential_witness:
  "\<exists>w' out.
     create_test_dataset ''portfolio_test_dataset.jsonl'' empty_world
       = (Inr ''portfolio_test_dataset.jsonl'', w')
   \<and> files w' ''portfolio_test_dataset.jsonl'' = Some (map JObj out)
   \<and> map (\<lambda>row. map_of row ''scenario_id'') out
       = map (\<lambda>s. Some (JStr s))
           [''test_01'', ''test_02'', ''test_03'', ''test_04'', ''test_05'', ''test_06'',
            ''test_07'', ''test_08'', ''test_09'', ''test_10'', ''test_11'']
   \<and> distinct [''test_01'', ''test_02'', ''test_03'', ''test_04'', ''test_05'', ''test_06'',
            ''test_07'', ''test_08'', ''test_09'', ''test_10'', ''test_11'']
   \<and> sorted_wrt (<) [''test_01'', ''test_02'', ''test_03'', ''test_04'', ''test_05'', ''test_06'',
            ''test_07'', ''test_08'', ''test_09'', ''test_10'', ''test_11'']"
  using scenario_ids_sequential [OF test_scenarios_ok, of tool_definitions
          "''portfolio_test_dataset.jsonl''" empty_world]
  unfolding create_test_dataset_def length_test_scenarios test_ids
  by auto

end
